theory Spec2Isabelle
  imports Complex_Main "HOL-Library.AList"
begin

section \<open>Numeric cells\<close>

text \<open>
  A numeric cell of a pandas column is a float64. Finite values are idealised as reals
  (no rounding, no signed zero); the three special values are kept, because the code's
  guards (\<^verbatim>\<open>> 0\<close>, \<^verbatim>\<open>== 0\<close>, \<^verbatim>\<open>fillna(0)\<close>, \<^verbatim>\<open>dropna()\<close>) are about them.
\<close>

datatype fl = Fin real | PInf | NInf | NaN

fun fl_gt :: "fl \<Rightarrow> fl \<Rightarrow> bool" where
  "fl_gt (Fin a) (Fin b) = (b < a)"
| "fl_gt (Fin a) NInf = True"
| "fl_gt PInf (Fin b) = True"
| "fl_gt PInf NInf = True"
| "fl_gt _ _ = False"

definition fl_lt :: "fl \<Rightarrow> fl \<Rightarrow> bool" where
  "fl_lt a b = fl_gt b a"

fun fl_eq :: "fl \<Rightarrow> fl \<Rightarrow> bool" where
  "fl_eq (Fin a) (Fin b) = (a = b)"
| "fl_eq PInf PInf = True"
| "fl_eq NInf NInf = True"
| "fl_eq _ _ = False"

definition fl_ge :: "fl \<Rightarrow> fl \<Rightarrow> bool" where
  "fl_ge a b = (fl_gt a b \<or> fl_eq a b)"

fun fl_neg :: "fl \<Rightarrow> fl" where
  "fl_neg (Fin a) = Fin (- a)"
| "fl_neg PInf = NInf"
| "fl_neg NInf = PInf"
| "fl_neg NaN = NaN"

fun fl_abs :: "fl \<Rightarrow> fl" where
  "fl_abs (Fin a) = Fin \<bar>a\<bar>"
| "fl_abs PInf = PInf"
| "fl_abs NInf = PInf"
| "fl_abs NaN = NaN"

fun fl_add :: "fl \<Rightarrow> fl \<Rightarrow> fl" where
  "fl_add (Fin a) (Fin b) = Fin (a + b)"
| "fl_add NaN _ = NaN"
| "fl_add _ NaN = NaN"
| "fl_add PInf NInf = NaN"
| "fl_add NInf PInf = NaN"
| "fl_add PInf _ = PInf"
| "fl_add _ PInf = PInf"
| "fl_add NInf _ = NInf"
| "fl_add _ NInf = NInf"

definition fl_sub :: "fl \<Rightarrow> fl \<Rightarrow> fl" where
  "fl_sub a b = fl_add a (fl_neg b)"

text \<open>The infinity with the sign of \<open>s\<close>; a zero \<open>s\<close> counts as positive (no signed zero).\<close>

definition signed_inf :: "real \<Rightarrow> fl" where
  "signed_inf s = (if s < 0 then NInf else PInf)"

fun fl_mul :: "fl \<Rightarrow> fl \<Rightarrow> fl" where
  "fl_mul (Fin a) (Fin b) = Fin (a * b)"
| "fl_mul NaN _ = NaN"
| "fl_mul _ NaN = NaN"
| "fl_mul (Fin a) PInf = (if a = 0 then NaN else signed_inf a)"
| "fl_mul (Fin a) NInf = (if a = 0 then NaN else signed_inf (- a))"
| "fl_mul PInf (Fin b) = (if b = 0 then NaN else signed_inf b)"
| "fl_mul NInf (Fin b) = (if b = 0 then NaN else signed_inf (- b))"
| "fl_mul PInf PInf = PInf"
| "fl_mul NInf NInf = PInf"
| "fl_mul PInf NInf = NInf"
| "fl_mul NInf PInf = NInf"

text \<open>
  Array division: a finite value over zero is an infinity of its sign, zero over zero
  is NaN (numpy only warns).
\<close>

fun fl_div :: "fl \<Rightarrow> fl \<Rightarrow> fl" where
  "fl_div (Fin a) (Fin b) =
     (if b \<noteq> 0 then Fin (a / b)
      else if 0 < a then PInf else if a < 0 then NInf else NaN)"
| "fl_div NaN _ = NaN"
| "fl_div _ NaN = NaN"
| "fl_div (Fin a) PInf = Fin 0"
| "fl_div (Fin a) NInf = Fin 0"
| "fl_div PInf (Fin b) = signed_inf b"
| "fl_div NInf (Fin b) = signed_inf (- b)"
| "fl_div PInf PInf = NaN"
| "fl_div PInf NInf = NaN"
| "fl_div NInf PInf = NaN"
| "fl_div NInf NInf = NaN"

fun fl_sqrt :: "fl \<Rightarrow> fl" where
  "fl_sqrt (Fin a) = (if a < 0 then NaN else Fin (sqrt a))"
| "fl_sqrt PInf = PInf"
| "fl_sqrt NInf = NaN"
| "fl_sqrt NaN = NaN"

section \<open>The dataset\<close>

text \<open>
  One row of the merged table: its date (as a day number), its categorical cells and its
  numeric cells, both looked up by column name. A missing numeric cell is \<open>NaN\<close>.
  Which columns the table has is a property of the table, not of the row.
\<close>

record observation =
  date :: nat
  label :: "string \<Rightarrow> string"
  num :: "string \<Rightarrow> fl"

record dataframe =
  columns :: "string list"
  numeric_columns :: "string list"
  rows :: "observation list"

text \<open>\<^verbatim>\<open>df[metric]\<close>, \<^verbatim>\<open>.dropna()\<close>, and the NaN-skipping reductions of a Series.\<close>

definition col :: "dataframe \<Rightarrow> string \<Rightarrow> fl list" where
  "col df metric = map (\<lambda>r. num r metric) (rows df)"

definition dropna :: "fl list \<Rightarrow> fl list" where
  "dropna xs = filter (\<lambda>x. x \<noteq> NaN) xs"

primrec fl_sum :: "fl list \<Rightarrow> fl" where
  "fl_sum [] = Fin 0"
| "fl_sum (x # xs) = fl_add x (fl_sum xs)"

definition series_sum :: "fl list \<Rightarrow> fl" where
  "series_sum xs = fl_sum (dropna xs)"

definition series_mean :: "fl list \<Rightarrow> fl" where
  "series_mean xs = fl_div (series_sum xs) (Fin (real (length (dropna xs))))"

text \<open>\<^verbatim>\<open>Series.std()\<close>: the sample standard deviation (ddof = 1), NaN below two values.\<close>

definition series_std :: "fl list \<Rightarrow> fl" where
  "series_std xs =
     (let d = dropna xs; m = series_mean xs in
      if length d < 2 then NaN
      else fl_sqrt (fl_div (fl_sum (map (\<lambda>x. fl_mul (fl_sub x m) (fl_sub x m)) d))
                           (Fin (real (length d - 1)))))"

text \<open>\<^verbatim>\<open>Series.unique()\<close>: the distinct values in order of first appearance.\<close>

definition unique :: "'a list \<Rightarrow> 'a list" where
  "unique xs = rev (remdups (rev xs))"

section \<open>Anomaly detector\<close>

text \<open>
  An anomaly dictionary. The \<^verbatim>\<open>text\<close> entry is a formatted rendering of the other
  entries and is left out.
\<close>

record anomaly =
  anom_date :: "nat option"
  anom_metric :: string
  anom_value :: fl
  z_score :: fl
  severity :: string
  pct_change :: fl
  baseline_mean :: fl
  anom_group :: "string option"
  group_col :: "string option"

record detector =
  df :: dataframe
  z_score_threshold :: fl
  anomalies :: "anomaly list"

definition calculate_z_scores :: "detector \<Rightarrow> string \<Rightarrow> fl list" where
  "calculate_z_scores d metric =
     (if metric \<notin> set (columns (df d)) then []
      else let data = dropna (col (df d) metric) in
        if length data < 2 then []
        else let mean = series_mean data; std = series_std data in
          if fl_eq std (Fin 0) then replicate (length (rows (df d))) (Fin 0)
          else map (\<lambda>x. fl_abs (fl_div (fl_sub x mean) std)) (col (df d) metric))"

definition calculate_severity :: "fl \<Rightarrow> string" where
  "calculate_severity z =
     (if fl_gt z (Fin 3.0) then ''critical''
      else if fl_gt z (Fin 2.5) then ''warning''
      else ''info'')"

text \<open>\<^verbatim>\<open>((value - mean) / mean * 100) if mean != 0 else 0\<close>\<close>

definition pct_from_mean :: "fl \<Rightarrow> fl \<Rightarrow> fl" where
  "pct_from_mean v mean =
     (if fl_eq mean (Fin 0) then Fin 0
      else fl_mul (fl_div (fl_sub v mean) mean) (Fin 100))"

definition date_of :: "dataframe \<Rightarrow> observation \<Rightarrow> nat option" where
  "date_of t r = (if ''date'' \<in> set (columns t) then Some (date r) else None)"

text \<open>
  The body of the loop over \<^verbatim>\<open>z_scores.items()\<close> in ungrouped mode: the rows and their
  Z-scores are walked in step, a row is kept when its Z-score is above the threshold.
\<close>

fun flag_rows :: "detector \<Rightarrow> string \<Rightarrow> (observation \<times> fl) list \<Rightarrow> anomaly list" where
  "flag_rows d metric [] = []"
| "flag_rows d metric ((r, z) # rest) =
     (if fl_gt z (z_score_threshold d)
      then (let v = num r metric; mean = series_mean (col (df d) metric) in
            \<lparr>anom_date = date_of (df d) r, anom_metric = metric, anom_value = v,
             z_score = z, severity = calculate_severity z,
             pct_change = pct_from_mean v mean, baseline_mean = mean,
             anom_group = None, group_col = None\<rparr>) # flag_rows d metric rest
      else flag_rows d metric rest)"

fun flag_group_rows ::
  "detector \<Rightarrow> dataframe \<Rightarrow> string \<Rightarrow> string \<Rightarrow> string \<Rightarrow> (observation \<times> fl) list \<Rightarrow> anomaly list"
where
  "flag_group_rows d g metric gv gc [] = []"
| "flag_group_rows d g metric gv gc ((r, z) # rest) =
     (if fl_gt z (z_score_threshold d)
      then (let v = num r metric; mean = series_mean (col g metric) in
            \<lparr>anom_date = date_of g r, anom_metric = metric, anom_value = v,
             z_score = z, severity = calculate_severity z,
             pct_change = pct_from_mean v mean, baseline_mean = mean,
             anom_group = Some gv, group_col = Some gc\<rparr>) # flag_group_rows d g metric gv gc rest
      else flag_group_rows d g metric gv gc rest)"

text \<open>The Z-scores of one group: no guard on a zero standard deviation here.\<close>

definition group_z_scores :: "dataframe \<Rightarrow> string \<Rightarrow> fl list" where
  "group_z_scores g metric =
     map (\<lambda>x. fl_abs (fl_div (fl_sub x (series_mean (col g metric))) (series_std (col g metric))))
         (col g metric)"

definition detect_within_group ::
  "detector \<Rightarrow> dataframe \<Rightarrow> string \<Rightarrow> string \<Rightarrow> string \<Rightarrow> anomaly list"
where
  "detect_within_group d group_data metric group_value gc =
     (if length (rows group_data) < 3 then []
      else flag_group_rows d group_data metric group_value gc
             (zip (rows group_data) (group_z_scores group_data metric)))"

text \<open>\<^verbatim>\<open>self.df[self.df[by_group] == group_value]\<close>\<close>

definition select_group :: "dataframe \<Rightarrow> string \<Rightarrow> string \<Rightarrow> dataframe" where
  "select_group t by_group gv = t\<lparr>rows := filter (\<lambda>r. label r by_group = gv) (rows t)\<rparr>"

definition detect_anomalies_by_metric ::
  "detector \<Rightarrow> string \<Rightarrow> string option \<Rightarrow> anomaly list"
where
  "detect_anomalies_by_metric d metric by_group =
     (if metric \<notin> set (columns (df d)) then []
      else case (case by_group of
                   None \<Rightarrow> None
                 | Some g \<Rightarrow> if g \<noteq> [] \<and> g \<in> set (columns (df d)) then Some g else None) of
        Some g \<Rightarrow>
          concat (map (\<lambda>gv. detect_within_group d (select_group (df d) g gv) metric gv g)
                      (unique (map (\<lambda>r. label r g) (rows (df d)))))
      | None \<Rightarrow> flag_rows d metric (zip (rows (df d)) (calculate_z_scores d metric)))"

section \<open>A sample dataset\<close>

text \<open>
  Sixteen rows of one channel; the metric is 0 on fifteen rows and 4 on the last, which
  gives mean 1/4 and sample standard deviation 1.
\<close>

definition example_row :: "real \<Rightarrow> observation" where
  "example_row v = \<lparr>date = 0, label = (\<lambda>c. ''email''), num = (\<lambda>c. Fin v)\<rparr>"

definition example_detector :: detector where
  "example_detector =
     \<lparr>df = \<lparr>columns = [''channel'', ''impressions''], numeric_columns = [''impressions''],
             rows = replicate 15 (example_row 0) @ [example_row 4]\<rparr>,
      z_score_threshold = Fin 2.0, anomalies = []\<rparr>"


section \<open>Anomaly state, ranking and recommendations\<close>

text \<open>
  The multi-metric sweep. \<^verbatim>\<open>all_anomalies\<close> is a dictionary keyed by metric (an
  association list in insertion order); \<^verbatim>\<open>self.anomalies\<close> is assigned the
  concatenation of its values. The sweep returns the dictionary and the new state.
\<close>

definition sweep_step ::
  "detector \<Rightarrow> string \<Rightarrow> (string \<times> anomaly list) list \<Rightarrow> (string \<times> anomaly list) list"
where
  "sweep_step d metric all_anomalies =
     (let found = detect_anomalies_by_metric d metric None in
      if found \<noteq> [] then AList.update metric found all_anomalies else all_anomalies)"

definition detect_all_anomalies ::
  "detector \<Rightarrow> string list option \<Rightarrow> (string \<times> anomaly list) list \<times> detector"
where
  "detect_all_anomalies d metrics_to_check =
     (let ms = (case metrics_to_check of None \<Rightarrow> numeric_columns (df d) | Some ms \<Rightarrow> ms);
          all_anomalies = fold (sweep_step d) ms []
      in (all_anomalies, d\<lparr>anomalies := concat (map snd all_anomalies)\<rparr>))"

definition get_critical_anomalies :: "detector \<Rightarrow> anomaly list" where
  "get_critical_anomalies d = filter (\<lambda>a. severity a = ''critical'') (anomalies d)"

text \<open>
  \<^verbatim>\<open>sorted(xs, key=..., reverse=True)\<close>: a stable sort into descending key order, written
  as an insertion sort that compares keys with the float \<^verbatim>\<open><\<close>. An item is inserted in
  front of the first item whose key is not greater than its own.
\<close>

fun insort_desc :: "('a \<Rightarrow> fl) \<Rightarrow> 'a \<Rightarrow> 'a list \<Rightarrow> 'a list" where
  "insort_desc key a [] = [a]"
| "insort_desc key a (b # bs) =
     (if fl_lt (key a) (key b) then b # insort_desc key a bs else a # b # bs)"

definition sorted_desc :: "('a \<Rightarrow> fl) \<Rightarrow> 'a list \<Rightarrow> 'a list" where
  "sorted_desc key xs = foldr (insort_desc key) xs []"

text \<open>The slice \<^verbatim>\<open>xs[:n]\<close>; a negative \<open>n\<close> counts from the end.\<close>

definition slice_to :: "int \<Rightarrow> 'a list \<Rightarrow> 'a list" where
  "slice_to n xs = (if 0 \<le> n then take (nat n) xs else take (length xs - nat (- n)) xs)"

definition filtered_by :: "detector \<Rightarrow> string option \<Rightarrow> anomaly list" where
  "filtered_by d sev =
     (case sev of
        None \<Rightarrow> anomalies d
      | Some s \<Rightarrow> if s \<noteq> [] then filter (\<lambda>a. severity a = s) (anomalies d) else anomalies d)"

definition get_top_anomalies :: "detector \<Rightarrow> int \<Rightarrow> string option \<Rightarrow> anomaly list" where
  "get_top_anomalies d n sev = slice_to n (sorted_desc z_score (filtered_by d sev))"

text \<open>
  A recommendation dictionary, shared by the analyzers; \<^verbatim>\<open>metric\<close> and \<^verbatim>\<open>detail\<close> are
  present in some of them only, the \<^verbatim>\<open>text\<close> is left out.
\<close>

record recommendation =
  rec_type :: string
  priority :: string
  rec_metric :: "string option"
  detail :: "anomaly option"

text \<open>Grouping into a dictionary of lists, keyed by metric in order of first appearance.\<close>

definition by_metric_step ::
  "anomaly \<Rightarrow> (string \<times> anomaly list) list \<Rightarrow> (string \<times> anomaly list) list"
where
  "by_metric_step a by_metric =
     (let m = anom_metric a;
          bm = (if map_of by_metric m = None then AList.update m [] by_metric else by_metric)
      in AList.update m ((case map_of bm m of None \<Rightarrow> [] | Some l \<Rightarrow> l) @ [a]) bm)"

definition spike_or_drop :: "anomaly \<Rightarrow> recommendation" where
  "spike_or_drop a =
     (if fl_gt (pct_change a) (Fin 0)
      then \<lparr>rec_type = ''spike_investigation'', priority = ''high'',
            rec_metric = None, detail = Some a\<rparr>
      else \<lparr>rec_type = ''drop_investigation'', priority = ''critical'',
            rec_metric = None, detail = Some a\<rparr>)"

definition recurring_rec :: "string \<times> anomaly list \<Rightarrow> recommendation" where
  "recurring_rec = (\<lambda>(metric, anomalies_list).
     \<lparr>rec_type = ''recurring_anomaly_'' @ metric, priority = ''high'',
      rec_metric = Some metric, detail = None\<rparr>)"

definition generate_anomaly_recommendations :: "detector \<Rightarrow> recommendation list" where
  "generate_anomaly_recommendations d =
     (let critical = get_critical_anomalies d;
          urgent = (if critical \<noteq> []
                    then [\<lparr>rec_type = ''urgent_investigation'', priority = ''critical'',
                           rec_metric = None, detail = None\<rparr>]
                    else []);
          by_metric = fold by_metric_step (anomalies d) [];
          recurring = map recurring_rec
                          (filter (\<lambda>(metric, anomalies_list). 2 < length anomalies_list) by_metric)
      in urgent @ recurring @ map spike_or_drop (slice_to 3 critical))"

section \<open>Benchmark comparator\<close>

text \<open>
  The KPI summary as the comparator reads it: the numeric entries of the overall KPI
  dictionary and of each channel's KPI dictionary. \<^verbatim>\<open>by_channel\<close> is \<open>None\<close> when the
  summary has no such key. The benchmark table maps a channel name, or \<^verbatim>\<open>overall\<close>, to
  its named benchmark values.
\<close>

record kpi_summary =
  ks_overall :: "(string \<times> fl) list"
  ks_by_channel :: "(string \<times> (string \<times> fl) list) list option"

text \<open>
  One comparison dictionary. The channel-level dictionary has no \<^verbatim>\<open>difference\<close>,
  \<^verbatim>\<open>status\<close> or \<^verbatim>\<open>performance\<close> key: these fields are \<open>None\<close> there. The \<^verbatim>\<open>badge\<close> and
  \<^verbatim>\<open>text\<close> renderings of the tier are left out.
\<close>

record comparison =
  client_value :: fl
  benchmark_value :: fl
  difference :: "fl option"
  pct_difference :: fl
  status :: "string option"
  performance :: "string option"
  tier :: string

record benchmark_analyzer =
  summary :: kpi_summary
  benchmarks :: "(string \<times> (string \<times> fl) list) list"
  comparisons_overall :: "(string \<times> comparison) list option"
  comparisons_by_channel :: "(string \<times> (string \<times> comparison) list) list option"

definition kpi_bench_map :: "(string \<times> string) list" where
  "kpi_bench_map =
     [(''ctr'', ''avg_ctr''), (''cpc'', ''avg_cpc''), (''cvr'', ''avg_conversion_rate''),
      (''cpa'', ''avg_cpa''), (''roas'', ''avg_roas'')]"

text \<open>\<^verbatim>\<open>(difference / benchmark_value * 100) if benchmark_value != 0 else 0\<close>\<close>

definition pct_of :: "fl \<Rightarrow> fl \<Rightarrow> fl" where
  "pct_of diff bench =
     (if fl_eq bench (Fin 0) then Fin 0 else fl_mul (fl_div diff bench) (Fin 100))"

text \<open>The tier ladder of \<^verbatim>\<open>compare_overall_metrics\<close>.\<close>

definition overall_tier :: "fl \<Rightarrow> string" where
  "overall_tier pct =
     (if fl_lt (fl_abs pct) (Fin 5) then ''in_line''
      else if fl_gt pct (Fin 20) then ''top_20''
      else if fl_gt pct (Fin 10) then ''top_40''
      else if fl_lt pct (Fin (- 20)) then ''bottom_20''
      else if fl_lt pct (Fin (- 10)) then ''bottom_40''
      else ''average'')"

text \<open>The tier ladder of \<^verbatim>\<open>compare_by_channel\<close>.\<close>

definition channel_tier :: "fl \<Rightarrow> string" where
  "channel_tier pct =
     (if fl_lt (fl_abs pct) (Fin 5) then ''in_line''
      else if fl_gt pct (Fin 15) then ''top_20''
      else if fl_gt pct (Fin 5) then ''top_40''
      else if fl_lt pct (Fin (- 15)) then ''bottom_20''
      else if fl_lt pct (Fin (- 5)) then ''bottom_40''
      else ''average'')"

definition overall_entry :: "string \<Rightarrow> fl \<Rightarrow> fl \<Rightarrow> comparison" where
  "overall_entry kpi_name cv bv =
     (let diff = fl_sub cv bv; pct = pct_of diff bv in
      \<lparr>client_value = cv, benchmark_value = bv, difference = Some diff, pct_difference = pct,
       status = Some (if fl_gt diff (Fin 0) then ''above'' else ''below''),
       performance =
         Some (if kpi_name \<in> set [''cpc'', ''cpa'']
               then (if fl_gt diff (Fin 0) then ''worse'' else ''better'')
               else (if fl_gt diff (Fin 0) then ''better'' else ''worse'')),
       tier = overall_tier pct\<rparr>)"

definition channel_entry :: "string \<Rightarrow> fl \<Rightarrow> fl \<Rightarrow> comparison" where
  "channel_entry kpi_name cv bv =
     (let diff = fl_sub cv bv; pct = pct_of diff bv in
      \<lparr>client_value = cv, benchmark_value = bv, difference = None, pct_difference = pct,
       status = None, performance = None, tier = channel_tier pct\<rparr>)"

text \<open>
  The loop over \<^verbatim>\<open>kpi_bench_map.items()\<close>, shared by both comparisons: an entry is made
  when the client has the KPI and the benchmark has its counterpart.
\<close>

definition compare_step ::
  "(string \<Rightarrow> fl \<Rightarrow> fl \<Rightarrow> comparison) \<Rightarrow> (string \<times> fl) list \<Rightarrow> (string \<times> fl) list \<Rightarrow>
   string \<times> string \<Rightarrow> (string \<times> comparison) list \<Rightarrow> (string \<times> comparison) list"
where
  "compare_step entry kpis bench = (\<lambda>(kpi_name, bench_name) comparison.
     (case (map_of kpis kpi_name, map_of bench bench_name) of
        (Some cv, Some bv) \<Rightarrow> AList.update kpi_name (entry kpi_name cv bv) comparison
      | _ \<Rightarrow> comparison))"

definition compare_overall_metrics ::
  "benchmark_analyzer \<Rightarrow> (string \<times> comparison) list \<times> benchmark_analyzer"
where
  "compare_overall_metrics b =
     (case map_of (benchmarks b) ''overall'' of
        None \<Rightarrow> ([], b)
      | Some overall_bench \<Rightarrow>
          (let comparison = fold (compare_step overall_entry (ks_overall (summary b)) overall_bench)
                                 kpi_bench_map []
           in (comparison, b\<lparr>comparisons_overall := Some comparison\<rparr>)))"

definition channel_bench_of :: "benchmark_analyzer \<Rightarrow> string \<Rightarrow> (string \<times> fl) list" where
  "channel_bench_of b channel =
     (let channel_bench = (case map_of (benchmarks b) channel of None \<Rightarrow> [] | Some cb \<Rightarrow> cb) in
      if channel_bench = []
      then (case map_of (benchmarks b) ''overall'' of None \<Rightarrow> [] | Some ob \<Rightarrow> ob)
      else channel_bench)"

definition compare_by_channel ::
  "benchmark_analyzer \<Rightarrow> (string \<times> (string \<times> comparison) list) list \<times> benchmark_analyzer"
where
  "compare_by_channel b =
     (case ks_by_channel (summary b) of
        None \<Rightarrow> ([], b)
      | Some client_channels \<Rightarrow>
          if benchmarks b = [] then ([], b)
          else (let channel_comparisons =
                      fold (\<lambda>(channel, client_kpi) acc.
                              AList.update channel
                                (fold (compare_step channel_entry client_kpi (channel_bench_of b channel))
                                      kpi_bench_map [])
                                acc)
                           client_channels []
                in (channel_comparisons, b\<lparr>comparisons_by_channel := Some channel_comparisons\<rparr>)))"

text \<open>Strengths and weaknesses of the overall comparison, each sorted by magnitude.\<close>

record finding =
  f_metric :: string
  f_client_value :: fl
  f_benchmark_value :: fl
  f_pct :: fl
  f_tier :: string

definition overall_comp :: "benchmark_analyzer \<Rightarrow> (string \<times> comparison) list" where
  "overall_comp b = (case comparisons_overall b of None \<Rightarrow> [] | Some c \<Rightarrow> c)"

definition get_strengths :: "benchmark_analyzer \<Rightarrow> fl \<Rightarrow> finding list" where
  "get_strengths b min_pct_above =
     sorted_desc f_pct
       (map (\<lambda>(metric, data).
               \<lparr>f_metric = metric, f_client_value = client_value data,
                f_benchmark_value = benchmark_value data, f_pct = pct_difference data,
                f_tier = tier data\<rparr>)
            (filter (\<lambda>(metric, data). fl_gt (pct_difference data) min_pct_above) (overall_comp b)))"

definition get_weaknesses :: "benchmark_analyzer \<Rightarrow> fl \<Rightarrow> finding list" where
  "get_weaknesses b max_pct_below =
     sorted_desc f_pct
       (map (\<lambda>(metric, data).
               \<lparr>f_metric = metric, f_client_value = client_value data,
                f_benchmark_value = benchmark_value data, f_pct = fl_abs (pct_difference data),
                f_tier = tier data\<rparr>)
            (filter (\<lambda>(metric, data). fl_lt (pct_difference data) max_pct_below) (overall_comp b)))"

text \<open>The remediation chosen for one weakness; an unrecognised metric gives none.\<close>

definition weakness_rec :: "finding \<Rightarrow> recommendation option" where
  "weakness_rec w =
     (let metric = f_metric w in
      if metric = ''ctr''
      then Some \<lparr>rec_type = ''improve_ctr'', priority = ''high'', rec_metric = Some metric, detail = None\<rparr>
      else if metric = ''cpc''
      then Some \<lparr>rec_type = ''reduce_cpc'', priority = ''high'', rec_metric = Some metric, detail = None\<rparr>
      else if metric = ''cvr''
      then Some \<lparr>rec_type = ''improve_cvr'', priority = ''high'', rec_metric = Some metric, detail = None\<rparr>
      else if metric = ''roas''
      then Some \<lparr>rec_type = ''improve_roas'', priority = ''high'', rec_metric = Some metric, detail = None\<rparr>
      else None)"

definition generate_benchmark_recommendations :: "benchmark_analyzer \<Rightarrow> recommendation list" where
  "generate_benchmark_recommendations b =
     (let weaknesses = get_weaknesses b (Fin (- 10));
          strengths = get_strengths b (Fin 10)
      in List.map_filter weakness_rec (slice_to 3 weaknesses)
         @ (if strengths \<noteq> []
            then [\<lparr>rec_type = ''scale_success'', priority = ''medium'',
                   rec_metric = None, detail = None\<rparr>]
            else []))"

text \<open>
  The two kinds of recommendation that are counted: the spike and drop investigations of
  the anomaly pass, and the per-metric remediations of the benchmark pass (the only
  benchmark recommendations with a \<^verbatim>\<open>metric\<close> entry).
\<close>

definition is_spike_or_drop :: "recommendation \<Rightarrow> bool" where
  "is_spike_or_drop r =
     (rec_type r = ''spike_investigation'' \<or> rec_type r = ''drop_investigation'')"

definition is_weakness_rec :: "recommendation \<Rightarrow> bool" where
  "is_weakness_rec r = (rec_metric r \<noteq> None)"

text \<open>
  The two tier ladders as the specification words them, on a finite percentage.
\<close>

definition overall_ladder_spec :: "real \<Rightarrow> string" where
  "overall_ladder_spec pct =
     (if \<bar>pct\<bar> < 5 then ''in_line''
      else if pct > 20 then ''top_20''
      else if pct > 10 then ''top_40''
      else if pct < - 20 then ''bottom_20''
      else if pct < - 10 then ''bottom_40''
      else ''average'')"

definition channel_ladder_spec :: "real \<Rightarrow> string" where
  "channel_ladder_spec pct =
     (if \<bar>pct\<bar> < 5 then ''in_line''
      else if pct > 15 then ''top_20''
      else if pct > 5 then ''top_40''
      else if pct < - 15 then ''bottom_20''
      else if pct < - 5 then ''bottom_40''
      else ''average'')"

text \<open>A sample comparator: one channel, benchmarks for it and overall.\<close>

definition example_analyzer :: benchmark_analyzer where
  "example_analyzer =
     \<lparr>summary =
        \<lparr>ks_overall = [(''ctr'', Fin 112), (''cpc'', Fin 2), (''roas'', Fin 5)],
         ks_by_channel = Some [(''email'', [(''ctr'', Fin 112), (''cpc'', Fin 2)])]\<rparr>,
      benchmarks =
        [(''overall'', [(''avg_ctr'', Fin 100), (''avg_cpc'', Fin 1), (''avg_roas'', Fin 4)]),
         (''email'', [(''avg_ctr'', Fin 100), (''avg_cpc'', Fin 1)])],
      comparisons_overall = None, comparisons_by_channel = None\<rparr>"


section \<open>Anomaly insights and the run\<close>

text \<open>
  An insight dictionary of the anomaly pass; the \<^verbatim>\<open>text\<close> is left out. The average deviation
  is \<^verbatim>\<open>np.mean\<close> of a list, which does not skip NaN.
\<close>

record insight =
  ins_type :: string
  ins_count :: "nat option"
  ins_detail :: "anomaly option"
  ins_metric :: "string option"
  avg_deviation :: "fl option"

definition metric_insight :: "string \<times> anomaly list \<Rightarrow> insight" where
  "metric_insight = (\<lambda>(metric, anomaly_list).
     \<lparr>ins_type = ''metric_'' @ metric, ins_count = Some (length anomaly_list),
      ins_detail = None, ins_metric = Some metric,
      avg_deviation =
        Some (fl_div (fl_sum (map (\<lambda>a. fl_abs (pct_change a)) anomaly_list))
                     (Fin (real (length anomaly_list))))\<rparr>)"

definition generate_anomaly_insights :: "detector \<Rightarrow> insight list" where
  "generate_anomaly_insights d =
     (let critical = filter (\<lambda>a. severity a = ''critical'') (anomalies d);
          warnings = filter (\<lambda>a. severity a = ''warning'') (anomalies d);
          metrics_affected = fold by_metric_step (anomalies d) []
      in (if critical \<noteq> []
          then [\<lparr>ins_type = ''critical_anomalies'', ins_count = Some (length critical),
                 ins_detail = None, ins_metric = None, avg_deviation = None\<rparr>,
                \<lparr>ins_type = ''top_critical_detail'', ins_count = None,
                 ins_detail = Some (hd (sorted_desc z_score critical)),
                 ins_metric = None, avg_deviation = None\<rparr>]
          else [])
         @ (if warnings \<noteq> []
            then [\<lparr>ins_type = ''warning_anomalies'', ins_count = Some (length warnings),
                   ins_detail = None, ins_metric = None, avg_deviation = None\<rparr>]
            else [])
         @ map metric_insight
               (filter (\<lambda>(metric, anomaly_list). 0 < length anomaly_list) metrics_affected))"

text \<open>
  One run of the detector: \<^verbatim>\<open>analyze_all\<close> makes one sweep and then reads the stored
  anomalies for the summary.
\<close>

record anomaly_summary =
  total_anomalies :: nat
  critical_count :: nat
  warning_count :: nat
  info_count :: nat
  summary_anomalies :: "anomaly list"
  top_anomalies :: "anomaly list"
  summary_insights :: "insight list"
  summary_recommendations :: "recommendation list"

definition get_summary :: "detector \<Rightarrow> anomaly_summary" where
  "get_summary d =
     \<lparr>total_anomalies = length (anomalies d),
      critical_count = length (get_critical_anomalies d),
      warning_count = length (filter (\<lambda>a. severity a = ''warning'') (anomalies d)),
      info_count = length (filter (\<lambda>a. severity a = ''info'') (anomalies d)),
      summary_anomalies = anomalies d,
      top_anomalies = get_top_anomalies d 5 None,
      summary_insights = generate_anomaly_insights d,
      summary_recommendations = generate_anomaly_recommendations d\<rparr>"

definition analyze_all :: "detector \<Rightarrow> string list option \<Rightarrow> anomaly_summary \<times> detector" where
  "analyze_all d metrics_to_check =
     (let d' = snd (detect_all_anomalies d metrics_to_check) in (get_summary d', d'))"

text \<open>The sample rows with two metric columns: each has one value with Z-score 3.75.\<close>

definition two_metric_detector :: detector where
  "two_metric_detector =
     \<lparr>df = \<lparr>columns = [''channel'', ''impressions'', ''clicks''],
             numeric_columns = [''impressions'', ''clicks''],
             rows = replicate 15 (example_row 0) @ [example_row 4]\<rparr>,
      z_score_threshold = Fin 2.0, anomalies = []\<rparr>"

definition two_swept :: detector where
  "two_swept = snd (detect_all_anomalies two_metric_detector (Some [''impressions'', ''clicks'']))"

section \<open>KPI calculator\<close>

text \<open>
  \<^verbatim>\<open>self.df[c]\<close> raises \<^verbatim>\<open>KeyError\<close> when the table has no column \<open>c\<close>; a function that
  reads columns without a guard returns \<open>None\<close> then.
\<close>

definition has_columns :: "dataframe \<Rightarrow> string list \<Rightarrow> bool" where
  "has_columns frame cs = list_all (\<lambda>c. c \<in> set (columns frame)) cs"

record basic_kpis =
  total_impressions :: fl
  total_clicks :: fl
  total_conversions :: fl
  total_spend :: fl
  total_revenue :: fl
  total_visits :: fl
  ctr :: fl
  cpc :: fl
  cvr :: fl
  cpa :: fl
  roas :: fl
  avg_daily_impressions :: fl
  avg_daily_clicks :: fl
  avg_daily_conversions :: fl

definition calculate_basic_kpis :: "dataframe \<Rightarrow> basic_kpis option" where
  "calculate_basic_kpis frame =
     (if \<not> has_columns frame [''impressions'', ''clicks'', ''conversions'', ''spend'', ''revenue'']
      then None
      else
        (let impressions = series_sum (col frame ''impressions'');
             clicks = series_sum (col frame ''clicks'');
             conversions = series_sum (col frame ''conversions'');
             spend = series_sum (col frame ''spend'');
             revenue = series_sum (col frame ''revenue'');
             visits = (if ''visits'' \<in> set (columns frame) then series_sum (col frame ''visits'')
                       else Fin 0);
             num_days = length (rows frame)
         in Some
           \<lparr>total_impressions = impressions, total_clicks = clicks,
            total_conversions = conversions, total_spend = spend, total_revenue = revenue,
            total_visits = visits,
            ctr = (if fl_gt impressions (Fin 0)
                   then fl_mul (fl_div clicks impressions) (Fin 100) else Fin 0),
            cpc = (if fl_gt clicks (Fin 0) then fl_div spend clicks else Fin 0),
            cvr = (if fl_gt clicks (Fin 0)
                   then fl_mul (fl_div conversions clicks) (Fin 100) else Fin 0),
            cpa = (if fl_gt conversions (Fin 0) then fl_div spend conversions else Fin 0),
            roas = (if fl_gt spend (Fin 0) then fl_div revenue spend else Fin 0),
            avg_daily_impressions =
              (if 0 < num_days then fl_div impressions (Fin (real num_days)) else Fin 0),
            avg_daily_clicks =
              (if 0 < num_days then fl_div clicks (Fin (real num_days)) else Fin 0),
            avg_daily_conversions =
              (if 0 < num_days then fl_div conversions (Fin (real num_days)) else Fin 0)\<rparr>))"

text \<open>
  One entry of the per-channel and per-campaign dictionaries: the sums over the rows of
  the group and the five ratios, each guarded by \<^verbatim>\<open>if total > 0 else 0\<close>.
\<close>

record group_kpis =
  g_key :: string
  g_impressions :: fl
  g_clicks :: fl
  g_conversions :: fl
  g_spend :: fl
  g_revenue :: fl
  g_ctr :: fl
  g_cpc :: fl
  g_cvr :: fl
  g_cpa :: fl
  g_roas :: fl

definition kpis_of_group :: "string \<Rightarrow> observation list \<Rightarrow> group_kpis" where
  "kpis_of_group key rs =
     (let total_impressions = series_sum (map (\<lambda>r. num r ''impressions'') rs);
          total_clicks = series_sum (map (\<lambda>r. num r ''clicks'') rs);
          total_conversions = series_sum (map (\<lambda>r. num r ''conversions'') rs);
          total_spend = series_sum (map (\<lambda>r. num r ''spend'') rs);
          total_revenue = series_sum (map (\<lambda>r. num r ''revenue'') rs)
      in \<lparr>g_key = key, g_impressions = total_impressions, g_clicks = total_clicks,
          g_conversions = total_conversions, g_spend = total_spend, g_revenue = total_revenue,
          g_ctr = (if fl_gt total_impressions (Fin 0)
                   then fl_mul (fl_div total_clicks total_impressions) (Fin 100) else Fin 0),
          g_cpc = (if fl_gt total_clicks (Fin 0) then fl_div total_spend total_clicks else Fin 0),
          g_cvr = (if fl_gt total_clicks (Fin 0)
                   then fl_mul (fl_div total_conversions total_clicks) (Fin 100) else Fin 0),
          g_cpa = (if fl_gt total_conversions (Fin 0)
                   then fl_div total_spend total_conversions else Fin 0),
          g_roas = (if fl_gt total_spend (Fin 0)
                    then fl_div total_revenue total_spend else Fin 0)\<rparr>)"

text \<open>
  \<^verbatim>\<open>calculate_by_channel\<close> and \<^verbatim>\<open>calculate_by_campaign\<close> are the same loop over the
  distinct labels of their column.
\<close>

definition calculate_by_label :: "string \<Rightarrow> dataframe \<Rightarrow> (string \<times> group_kpis) list option" where
  "calculate_by_label c frame =
     (if c \<notin> set (columns frame) then Some []
      else if \<not> has_columns frame [''impressions'', ''clicks'', ''conversions'', ''spend'', ''revenue'']
      then (if rows frame = [] then Some [] else None)
      else Some (fold (\<lambda>v acc. AList.update v
                        (kpis_of_group v (filter (\<lambda>r. label r c = v) (rows frame))) acc)
                   (unique (map (\<lambda>r. label r c) (rows frame))) []))"

definition calculate_by_channel :: "dataframe \<Rightarrow> (string \<times> group_kpis) list option" where
  "calculate_by_channel = calculate_by_label ''channel''"

definition calculate_by_campaign :: "dataframe \<Rightarrow> (string \<times> group_kpis) list option" where
  "calculate_by_campaign = calculate_by_label ''campaign''"

text \<open>
  \<^verbatim>\<open>calculate_by_date\<close>: one row for each date, in date order, with the sums of the six
  counters; the ratios are divisions of whole columns, followed by \<^verbatim>\<open>fillna(0)\<close>, which
  replaces NaN and nothing else. The aggregation raises \<^verbatim>\<open>KeyError\<close> for a column that
  the table lacks.
\<close>

definition fillna :: "fl \<Rightarrow> fl \<Rightarrow> fl" where
  "fillna v x = (if x = NaN then v else x)"

record daily_kpis =
  d_date :: nat
  d_impressions :: fl
  d_clicks :: fl
  d_conversions :: fl
  d_spend :: fl
  d_revenue :: fl
  d_visits :: fl
  d_ctr :: fl
  d_cpc :: fl
  d_cvr :: fl
  d_cpa :: fl
  d_roas :: fl

definition daily_row :: "dataframe \<Rightarrow> nat \<Rightarrow> daily_kpis" where
  "daily_row frame d =
     (let g = filter (\<lambda>r. date r = d) (rows frame);
          impressions = series_sum (map (\<lambda>r. num r ''impressions'') g);
          clicks = series_sum (map (\<lambda>r. num r ''clicks'') g);
          conversions = series_sum (map (\<lambda>r. num r ''conversions'') g);
          spend = series_sum (map (\<lambda>r. num r ''spend'') g);
          revenue = series_sum (map (\<lambda>r. num r ''revenue'') g);
          visits = series_sum (map (\<lambda>r. num r ''visits'') g)
      in \<lparr>d_date = d, d_impressions = impressions, d_clicks = clicks,
          d_conversions = conversions, d_spend = spend, d_revenue = revenue, d_visits = visits,
          d_ctr = fillna (Fin 0) (fl_mul (fl_div clicks impressions) (Fin 100)),
          d_cpc = fillna (Fin 0) (fl_div spend clicks),
          d_cvr = fillna (Fin 0) (fl_mul (fl_div conversions clicks) (Fin 100)),
          d_cpa = fillna (Fin 0) (fl_div spend conversions),
          d_roas = fillna (Fin 0) (fl_div revenue spend)\<rparr>)"

definition calculate_by_date :: "dataframe \<Rightarrow> daily_kpis list option" where
  "calculate_by_date frame =
     (if ''date'' \<notin> set (columns frame) then Some []
      else if \<not> has_columns frame
                [''impressions'', ''clicks'', ''conversions'', ''spend'', ''revenue'', ''visits'']
      then None
      else Some (map (daily_row frame) (sort (remdups (map date (rows frame))))))"

text \<open>A day with spend and impressions but no click and no conversion.\<close>

definition no_click_day :: dataframe where
  "no_click_day =
     \<lparr>columns = [''date'', ''channel'', ''impressions'', ''clicks'', ''conversions'', ''spend'',
                 ''revenue'', ''visits''],
      numeric_columns = [''impressions'', ''clicks'', ''conversions'', ''spend'', ''revenue'',
                         ''visits''],
      rows = [\<lparr>date = 0, label = (\<lambda>c. ''email''),
               num = (\<lambda>c. if c = ''impressions'' then Fin 100
                          else if c = ''spend'' then Fin 10 else Fin 0)\<rparr>]\<rparr>"

section \<open>Weather analyzer\<close>

text \<open>
  \<^verbatim>\<open>scipy.stats.pearsonr\<close> is outside the repository. It is a parameter of the model: any
  function from two series to a coefficient and a p-value.
\<close>

type_synonym pearson = "fl list \<Rightarrow> fl list \<Rightarrow> fl \<times> fl"

record corr_data =
  correlation :: fl
  p_value :: fl
  significant :: bool

text \<open>An insight and a recommendation dictionary of the weather pass, without the texts.\<close>

record weather_insight =
  wi_type :: string
  wi_metric :: "string option"
  wi_weather_factor :: "string option"
  wi_correlation :: "fl option"
  wi_strength :: "string option"
  wi_pct_change :: "fl option"
  wi_best_temp :: "string option"
  wi_worst_temp :: "string option"

record weather_rec =
  wr_type :: string
  wr_priority :: string
  wr_about :: "string list"
  wr_value :: "fl option"

record weather_analyzer =
  weather_df :: dataframe
  correlations :: "(string \<times> (string \<times> corr_data) list) list"
  weather_insights :: "weather_insight list"
  weather_recommendations :: "weather_rec list"

text \<open>The constructor: the table, and nothing computed yet.\<close>

definition new_weather_analyzer :: "dataframe \<Rightarrow> weather_analyzer" where
  "new_weather_analyzer t =
     \<lparr>weather_df = t, correlations = [], weather_insights = [], weather_recommendations = []\<rparr>"

definition weather_cols :: "string list" where
  "weather_cols = [''temperature_c'', ''rainfall_mm'']"

definition performance_cols :: "string list" where
  "performance_cols = [''conversions'', ''revenue'', ''visits'', ''clicks'', ''impressions'']"

definition check_weather_data_available :: "weather_analyzer \<Rightarrow> bool" where
  "check_weather_data_available w =
     list_all (\<lambda>c. c \<in> set (columns (weather_df w))) weather_cols"

text \<open>\<^verbatim>\<open>self.df[[perf_col, weather_col]].dropna()\<close>: the rows where both cells are present.\<close>

definition valid_data :: "dataframe \<Rightarrow> string \<Rightarrow> string \<Rightarrow> observation list" where
  "valid_data t perf_col weather_col =
     filter (\<lambda>r. num r perf_col \<noteq> NaN \<and> num r weather_col \<noteq> NaN) (rows t)"

text \<open>The dictionary stored for one pair.\<close>

definition corr_entry :: "pearson \<Rightarrow> dataframe \<Rightarrow> string \<Rightarrow> string \<Rightarrow> corr_data" where
  "corr_entry pearsonr t perf_col weather_col =
     (let valid = valid_data t perf_col weather_col;
          (corr, p) = pearsonr (map (\<lambda>r. num r weather_col) valid)
                               (map (\<lambda>r. num r perf_col) valid)
      in \<lparr>correlation = corr, p_value = p, significant = fl_lt p (Fin 0.05)\<rparr>)"

definition weather_step ::
  "pearson \<Rightarrow> dataframe \<Rightarrow> string \<Rightarrow> string \<Rightarrow> (string \<times> corr_data) list \<Rightarrow>
   (string \<times> corr_data) list"
where
  "weather_step pearsonr t perf_col weather_col inner =
     (if 2 < length (valid_data t perf_col weather_col)
      then AList.update weather_col (corr_entry pearsonr t perf_col weather_col) inner
      else inner)"

text \<open>
  \<^verbatim>\<open>calculate_correlations\<close> returns the dictionary and stores it. Every available
  performance column gets an entry, which is empty when no pair could be computed.
\<close>

definition calculate_correlations ::
  "pearson \<Rightarrow> weather_analyzer \<Rightarrow> (string \<times> (string \<times> corr_data) list) list \<times> weather_analyzer"
where
  "calculate_correlations pearsonr w =
     (if \<not> check_weather_data_available w then ([], w)
      else
        (let available_perf_cols =
               filter (\<lambda>c. c \<in> set (columns (weather_df w))) performance_cols;
             result =
               fold (\<lambda>perf_col acc.
                       AList.update perf_col
                         (fold (weather_step pearsonr (weather_df w) perf_col) weather_cols [])
                         acc)
                    available_perf_cols []
         in (result, w\<lparr>correlations := result\<rparr>)))"

text \<open>\<^verbatim>\<open>d[a][b]\<close> when both keys are present.\<close>

definition lookup2 :: "('a \<times> ('b \<times> 'c) list) list \<Rightarrow> 'a \<Rightarrow> 'b \<Rightarrow> 'c option" where
  "lookup2 m a b = (case map_of m a of None \<Rightarrow> None | Some inner \<Rightarrow> map_of inner b)"

definition strong_step ::
  "fl \<Rightarrow> string \<Rightarrow> string \<times> corr_data \<Rightarrow> (string \<times> (string \<times> corr_data) list) list \<Rightarrow>
   (string \<times> (string \<times> corr_data) list) list"
where
  "strong_step threshold metric = (\<lambda>(weather_type, data) strong.
     if fl_ge (fl_abs (correlation data)) threshold \<and> significant data
     then (let strong' = (if map_of strong metric = None
                          then AList.update metric [] strong else strong)
           in AList.update metric
                (AList.update weather_type data
                   (case map_of strong' metric of None \<Rightarrow> [] | Some inner \<Rightarrow> inner))
                strong')
     else strong)"

definition get_strong_correlations ::
  "weather_analyzer \<Rightarrow> fl \<Rightarrow> (string \<times> (string \<times> corr_data) list) list"
where
  "get_strong_correlations w threshold =
     fold (\<lambda>(metric, weather_corr) strong. fold (strong_step threshold metric) weather_corr strong)
          (correlations w) []"

text \<open>
  A sample with three rows. Conversions are present in all rows, revenue is missing in
  one. The stand-in for \<^verbatim>\<open>pearsonr\<close> returns a high coefficient that is not significant for
  the temperature series and a moderate, significant one for any other.
\<close>

definition weather_row :: "nat \<Rightarrow> real \<Rightarrow> real \<Rightarrow> real \<Rightarrow> fl \<Rightarrow> observation" where
  "weather_row d t rain conv revenue_cell =
     \<lparr>date = d, label = (\<lambda>c. ''email''),
      num = (\<lambda>c. if c = ''temperature_c'' then Fin t
                 else if c = ''rainfall_mm'' then Fin rain
                 else if c = ''conversions'' then Fin conv
                 else if c = ''revenue'' then revenue_cell else NaN)\<rparr>"

definition weather_sample :: dataframe where
  "weather_sample =
     \<lparr>columns = [''date'', ''conversions'', ''revenue'', ''temperature_c'', ''rainfall_mm''],
      numeric_columns = [''conversions'', ''revenue'', ''temperature_c'', ''rainfall_mm''],
      rows = [weather_row 0 12 0 10 (Fin 100), weather_row 1 18 2 20 NaN,
              weather_row 2 22 5 30 (Fin 300)]\<rparr>"

definition sample_pearson :: pearson where
  "sample_pearson xs ys =
     (if xs = [Fin 12, Fin 18, Fin 22] then (Fin 0.9, Fin 0.2) else (Fin 0.65, Fin 0.01))"

text \<open>\<^verbatim>\<open>Series.max()\<close> and \<^verbatim>\<open>Series.min()\<close>: over the values present, NaN when there is none.\<close>

definition series_max :: "fl list \<Rightarrow> fl" where
  "series_max xs =
     (case dropna xs of [] \<Rightarrow> NaN | y # ys \<Rightarrow> fold (\<lambda>x m. if fl_gt x m then x else m) ys y)"

definition series_min :: "fl list \<Rightarrow> fl" where
  "series_min xs =
     (case dropna xs of [] \<Rightarrow> NaN | y # ys \<Rightarrow> fold (\<lambda>x m. if fl_lt x m then x else m) ys y)"

definition fl_le :: "fl \<Rightarrow> fl \<Rightarrow> bool" where
  "fl_le a b = (fl_lt a b \<or> fl_eq a b)"

text \<open>The rainy-day split; \<open>None\<close> is the empty dictionary returned without a rainfall column.\<close>

record rainy_metric =
  rainy_avg :: fl
  non_rainy_avg :: fl
  rainy_pct_change :: fl
  rainy_direction :: string

record rainy_analysis =
  rainy_days_count :: nat
  non_rainy_days_count :: nat
  rainy_metrics :: "(string \<times> rainy_metric) list"

definition metrics_to_analyze :: "string list" where
  "metrics_to_analyze = [''conversions'', ''revenue'', ''visits'', ''clicks'']"

definition analyze_rainy_days :: "weather_analyzer \<Rightarrow> rainy_analysis option" where
  "analyze_rainy_days w =
     (if ''rainfall_mm'' \<notin> set (columns (weather_df w)) then None
      else
        (let rainy_days = filter (\<lambda>r. fl_gt (num r ''rainfall_mm'') (Fin 1.0)) (rows (weather_df w));
             non_rainy_days =
               filter (\<lambda>r. fl_le (num r ''rainfall_mm'') (Fin 1.0)) (rows (weather_df w));
             available_metrics =
               filter (\<lambda>m. m \<in> set (columns (weather_df w))) metrics_to_analyze
         in Some
           \<lparr>rainy_days_count = length rainy_days,
            non_rainy_days_count = length non_rainy_days,
            rainy_metrics =
              (if 0 < length rainy_days \<and> 0 < length non_rainy_days
               then map (\<lambda>metric.
                      (let ra = series_mean (map (\<lambda>r. num r metric) rainy_days);
                           na = series_mean (map (\<lambda>r. num r metric) non_rainy_days);
                           pct = (if fl_gt na (Fin 0)
                                  then fl_mul (fl_div (fl_sub ra na) na) (Fin 100) else Fin 0)
                       in (metric,
                           \<lparr>rainy_avg = ra, non_rainy_avg = na, rainy_pct_change = pct,
                            rainy_direction =
                              (if fl_gt pct (Fin 0) then ''increase'' else ''decrease'')\<rparr>)))
                    available_metrics
               else [])\<rparr>))"

text \<open>
  The temperature bands, each with its lower bound (included) and its upper bound
  (excluded), and the breakdown: a band with no row has no entry.
\<close>

definition temp_ranges :: "(string \<times> real \<times> real) list" where
  "temp_ranges =
     [(''cold'', 0, 10), (''cool'', 10, 15), (''mild'', 15, 20), (''warm'', 20, 25),
      (''hot'', 25, 50)]"

record metric_stats =
  ms_avg :: fl
  ms_total :: fl
  ms_max :: fl
  ms_min :: fl

record range_analysis =
  ra_count :: nat
  ra_metrics :: "(string \<times> metric_stats) list"

definition temp_data :: "dataframe \<Rightarrow> real \<Rightarrow> real \<Rightarrow> observation list" where
  "temp_data t min_t max_t =
     filter (\<lambda>r. fl_ge (num r ''temperature_c'') (Fin min_t)
                \<and> fl_lt (num r ''temperature_c'') (Fin max_t)) (rows t)"

definition range_entry :: "string list \<Rightarrow> observation list \<Rightarrow> range_analysis" where
  "range_entry available_metrics band_rows =
     \<lparr>ra_count = length band_rows,
      ra_metrics =
        map (\<lambda>metric.
               (metric,
                \<lparr>ms_avg = series_mean (map (\<lambda>r. num r metric) band_rows),
                 ms_total = series_sum (map (\<lambda>r. num r metric) band_rows),
                 ms_max = series_max (map (\<lambda>r. num r metric) band_rows),
                 ms_min = series_min (map (\<lambda>r. num r metric) band_rows)\<rparr>))
            available_metrics\<rparr>"

definition analyze_temperature_ranges :: "weather_analyzer \<Rightarrow> (string \<times> range_analysis) list" where
  "analyze_temperature_ranges w =
     (if ''temperature_c'' \<notin> set (columns (weather_df w)) then []
      else
        (let available_metrics =
               filter (\<lambda>m. m \<in> set (columns (weather_df w))) metrics_to_analyze
         in fold (\<lambda>(temp_name, min_t, max_t) analysis.
                    (let band_rows = temp_data (weather_df w) min_t max_t in
                     if 0 < length band_rows
                     then AList.update temp_name (range_entry available_metrics band_rows) analysis
                     else analysis))
                 temp_ranges []))"

text \<open>
  \<^verbatim>\<open>max(items, key=...)\<close> and \<^verbatim>\<open>min(items, key=...)\<close> of a non-empty list: the first item
  that no later item beats under the float comparison.
\<close>

definition py_max :: "('a \<Rightarrow> fl) \<Rightarrow> 'a \<Rightarrow> 'a list \<Rightarrow> 'a" where
  "py_max key x xs = fold (\<lambda>y m. if fl_gt (key y) (key m) then y else m) xs x"

definition py_min :: "('a \<Rightarrow> fl) \<Rightarrow> 'a \<Rightarrow> 'a list \<Rightarrow> 'a" where
  "py_min key x xs = fold (\<lambda>y m. if fl_lt (key y) (key m) then y else m) xs x"

text \<open>\<^verbatim>\<open>x[1]['metrics'].get('conversions', {}).get('avg', 0)\<close>\<close>

definition conversions_avg :: "string \<times> range_analysis \<Rightarrow> fl" where
  "conversions_avg x =
     (case map_of (ra_metrics (snd x)) ''conversions'' of None \<Rightarrow> Fin 0 | Some s \<Rightarrow> ms_avg s)"

text \<open>The three parts of \<^verbatim>\<open>generate_weather_insights\<close>, in the order they are appended.\<close>

definition correlation_insights :: "weather_analyzer \<Rightarrow> weather_insight list" where
  "correlation_insights w =
     concat (map (\<lambda>(metric, weather_data).
                    map (\<lambda>(weather_type, cd).
                           \<lparr>wi_type = ''correlation'', wi_metric = Some metric,
                            wi_weather_factor = Some weather_type,
                            wi_correlation = Some (correlation cd),
                            wi_strength =
                              Some (if fl_gt (fl_abs (correlation cd)) (Fin 0.7)
                                    then ''strong'' else ''moderate''),
                            wi_pct_change = None, wi_best_temp = None, wi_worst_temp = None\<rparr>)
                        weather_data)
                 (get_strong_correlations w (Fin 0.6)))"

definition rainy_insights :: "weather_analyzer \<Rightarrow> weather_insight list" where
  "rainy_insights w =
     (case analyze_rainy_days w of
        None \<Rightarrow> []
      | Some a \<Rightarrow>
          map (\<lambda>(metric, data).
                 \<lparr>wi_type = ''rainy_day'', wi_metric = Some metric, wi_weather_factor = None,
                  wi_correlation = None, wi_strength = None,
                  wi_pct_change = Some (rainy_pct_change data),
                  wi_best_temp = None, wi_worst_temp = None\<rparr>)
              (filter (\<lambda>(metric, data). fl_gt (fl_abs (rainy_pct_change data)) (Fin 10))
                      (rainy_metrics a)))"

definition temperature_insights :: "weather_analyzer \<Rightarrow> weather_insight list" where
  "temperature_insights w =
     (case analyze_temperature_ranges w of
        [] \<Rightarrow> []
      | x # xs \<Rightarrow>
          (let best_temp = py_max conversions_avg x xs;
               worst_temp = py_min conversions_avg x xs
           in if fst best_temp \<noteq> fst worst_temp
              then [\<lparr>wi_type = ''temperature_range'', wi_metric = None, wi_weather_factor = None,
                     wi_correlation = None, wi_strength = None, wi_pct_change = None,
                     wi_best_temp = Some (fst best_temp),
                     wi_worst_temp = Some (fst worst_temp)\<rparr>]
              else []))"

definition generate_weather_insights ::
  "weather_analyzer \<Rightarrow> weather_insight list \<times> weather_analyzer"
where
  "generate_weather_insights w =
     (let insights = correlation_insights w @ rainy_insights w @ temperature_insights w
      in (insights, w\<lparr>weather_insights := insights\<rparr>))"

text \<open>The three parts of \<^verbatim>\<open>generate_recommendations\<close>.\<close>

definition correlation_recs :: "weather_analyzer \<Rightarrow> weather_rec list" where
  "correlation_recs w =
     concat (map (\<lambda>(metric, weather_data).
                    concat (map (\<lambda>(weather_type, data).
                       if fl_gt (correlation data) (Fin 0.6)
                       then [\<lparr>wr_type = ''increase_budget_when_favorable'', wr_priority = ''high'',
                              wr_about = [weather_type, metric],
                              wr_value = Some (fl_mul (fl_abs (correlation data)) (Fin 100))\<rparr>]
                       else if fl_lt (correlation data) (Fin (- 0.6))
                       then [\<lparr>wr_type = ''shift_to_digital_when_unfavorable'', wr_priority = ''high'',
                              wr_about = [weather_type, metric],
                              wr_value = Some (fl_mul (fl_abs (correlation data)) (Fin 100))\<rparr>]
                       else [])
                     weather_data))
                 (get_strong_correlations w (Fin 0.6)))"

definition rainy_recs :: "weather_analyzer \<Rightarrow> weather_rec list" where
  "rainy_recs w =
     (case analyze_rainy_days w of
        None \<Rightarrow> []
      | Some a \<Rightarrow>
          (let pct = (case map_of (rainy_metrics a) ''conversions'' of
                        None \<Rightarrow> Fin 0 | Some data \<Rightarrow> rainy_pct_change data)
           in if fl_gt pct (Fin 10)
              then [\<lparr>wr_type = ''capitalize_on_rainy_days'', wr_priority = ''high'',
                     wr_about = [], wr_value = Some pct\<rparr>]
              else if fl_lt pct (Fin (- 10))
              then [\<lparr>wr_type = ''reduce_spend_on_rainy_days'', wr_priority = ''medium'',
                     wr_about = [], wr_value = Some (fl_abs pct)\<rparr>]
              else []))"

definition temperature_recs :: "weather_analyzer \<Rightarrow> weather_rec list" where
  "temperature_recs w =
     (case analyze_temperature_ranges w of
        [] \<Rightarrow> []
      | x # xs \<Rightarrow>
          if 1 < length (x # xs)
          then [\<lparr>wr_type = ''optimize_for_best_temperature'', wr_priority = ''medium'',
                 wr_about = [fst (py_max conversions_avg x xs)], wr_value = None\<rparr>]
          else [])"

definition generate_recommendations :: "weather_analyzer \<Rightarrow> weather_rec list \<times> weather_analyzer"
where
  "generate_recommendations w =
     (let recommendations = correlation_recs w @ rainy_recs w @ temperature_recs w
      in (recommendations, w\<lparr>weather_recommendations := recommendations\<rparr>))"

text \<open>
  A table with two rows inside the bands and two outside, one below 0 and one at 50 or
  above, both with very many conversions; and the same table without the two.
\<close>

definition band_row :: "real \<Rightarrow> real \<Rightarrow> observation" where
  "band_row t conv =
     \<lparr>date = 0, label = (\<lambda>c. ''email''),
      num = (\<lambda>c. if c = ''temperature_c'' then Fin t
                 else if c = ''conversions'' then Fin conv else NaN)\<rparr>"

definition band_sample :: "observation list \<Rightarrow> weather_analyzer" where
  "band_sample rs =
     new_weather_analyzer
       \<lparr>columns = [''date'', ''conversions'', ''temperature_c''],
        numeric_columns = [''conversions'', ''temperature_c''], rows = rs\<rparr>"

section \<open>Properties of the anomaly detector\<close>

lemma flag_rows_z:
  "map z_score (flag_rows d metric rzs) =
     filter (\<lambda>z. fl_gt z (z_score_threshold d)) (map snd rzs)"
  by (induction d metric rzs rule: flag_rows.induct) (simp_all add: Let_def)

lemma flag_rows_severity:
  "map severity (flag_rows d metric rzs) = map calculate_severity (map z_score (flag_rows d metric rzs))"
  by (induction d metric rzs rule: flag_rows.induct) (simp_all add: Let_def)

lemma flag_group_rows_z:
  "map z_score (flag_group_rows d g metric gv gc rzs) =
     filter (\<lambda>z. fl_gt z (z_score_threshold d)) (map snd rzs)"
  by (induction d g metric gv gc rzs rule: flag_group_rows.induct) (simp_all add: Let_def)

lemma flag_group_rows_severity:
  "map severity (flag_group_rows d g metric gv gc rzs) =
     map calculate_severity (map z_score (flag_group_rows d g metric gv gc rzs))"
  by (induction d g metric gv gc rzs rule: flag_group_rows.induct) (simp_all add: Let_def)

lemma length_calculate_z_scores:
  "length (calculate_z_scores d metric) = 0 \<or> length (calculate_z_scores d metric) = length (rows (df d))"
  by (simp add: calculate_z_scores_def Let_def col_def)

lemma map_snd_zip_z:
  "map snd (zip (rows (df d)) (calculate_z_scores d metric)) = calculate_z_scores d metric"
  using length_calculate_z_scores [of d metric] by (auto simp: map_snd_zip_take)

lemma length_group_z_scores: "length (group_z_scores g metric) = length (rows g)"
  by (simp add: group_z_scores_def col_def)

lemma detect_within_group_z:
  "map z_score (detect_within_group d g metric gv gc) =
     (if length (rows g) < 3 then []
      else filter (\<lambda>z. fl_gt z (z_score_threshold d)) (group_z_scores g metric))"
  by (simp add: detect_within_group_def flag_group_rows_z length_group_z_scores)

lemma flag_rows_sev_all:
  "list_all (\<lambda>a. severity a = calculate_severity (z_score a)) (flag_rows d metric rzs)"
  by (induction d metric rzs rule: flag_rows.induct) (simp_all add: Let_def)

lemma flag_group_rows_sev_all:
  "list_all (\<lambda>a. severity a = calculate_severity (z_score a)) (flag_group_rows d g metric gv gc rzs)"
  by (induction d g metric gv gc rzs rule: flag_group_rows.induct) (simp_all add: Let_def)

lemma detect_sev_all:
  "list_all (\<lambda>a. severity a = calculate_severity (z_score a)) (detect_anomalies_by_metric d metric by_group)"
  unfolding detect_anomalies_by_metric_def
  using flag_rows_sev_all [unfolded list_all_iff] flag_group_rows_sev_all [unfolded list_all_iff]
  by (auto simp: detect_within_group_def list_all_iff split: option.splits)

lemma detect_severity:
  "map severity (detect_anomalies_by_metric d metric by_group) =
     map calculate_severity (map z_score (detect_anomalies_by_metric d metric by_group))"
  using detect_sev_all [of d metric by_group] by (simp add: list_all_iff)

lemma flag_rows_above: "list_all (\<lambda>a. fl_gt (z_score a) (z_score_threshold d)) (flag_rows d metric rzs)"
  by (induction d metric rzs rule: flag_rows.induct) (simp_all add: Let_def)

lemma flag_group_rows_above:
  "list_all (\<lambda>a. fl_gt (z_score a) (z_score_threshold d)) (flag_group_rows d g metric gv gc rzs)"
  by (induction d g metric gv gc rzs rule: flag_group_rows.induct) (simp_all add: Let_def)

lemma detect_above:
  "list_all (\<lambda>a. fl_gt (z_score a) (z_score_threshold d)) (detect_anomalies_by_metric d metric by_group)"
  unfolding detect_anomalies_by_metric_def
  using flag_rows_above [unfolded list_all_iff] flag_group_rows_above [unfolded list_all_iff]
  by (auto simp: detect_within_group_def list_all_iff split: option.splits)

lemma fl_gt_irrefl: "\<not> fl_gt z z"
  by (cases z) simp_all

lemma fl_eq_not_gt: "fl_eq z t \<Longrightarrow> \<not> fl_gt z t"
  by (cases z; cases t) simp_all

text \<open>
  Claim C2. Flagging is a strict comparison with the configured threshold: the Z-scores of
  the anomalies returned are exactly the Z-scores that are strictly greater than the
  threshold, in ungrouped and in grouped mode, so a Z-score equal to the threshold is not
  flagged. The severity of every anomaly is the ladder applied to its Z-score: above 3.0
  critical, otherwise above 2.5 warning, otherwise info.
\<close>

theorem flagging_and_severity:
  "map z_score (detect_anomalies_by_metric d metric None) =
      filter (\<lambda>z. fl_gt z (z_score_threshold d)) (calculate_z_scores d metric)
   \<and> map z_score (detect_within_group d g metric gv gc) =
      (if length (rows g) < 3 then []
       else filter (\<lambda>z. fl_gt z (z_score_threshold d)) (group_z_scores g metric))
   \<and> map severity (detect_anomalies_by_metric d metric by_group) =
      map calculate_severity (map z_score (detect_anomalies_by_metric d metric by_group))
   \<and> list_all (\<lambda>a. fl_gt (z_score a) (z_score_threshold d)) (detect_anomalies_by_metric d metric by_group)
   \<and> (fl_eq z (z_score_threshold d) \<longrightarrow> \<not> fl_gt z (z_score_threshold d))
   \<and> (fl_gt z (Fin 3.0) \<longrightarrow> calculate_severity z = ''critical'')
   \<and> (fl_ge (Fin 3.0) z \<and> fl_gt z (Fin 2.5) \<longrightarrow> calculate_severity z = ''warning'')
   \<and> (\<not> fl_gt z (Fin 2.5) \<longrightarrow> calculate_severity z = ''info'')"
proof -
  have a: "map z_score (detect_anomalies_by_metric d metric None) =
      filter (\<lambda>z. fl_gt z (z_score_threshold d)) (calculate_z_scores d metric)"
  proof (cases "metric \<in> set (columns (df d))")
    case True
    then show ?thesis
      by (simp add: detect_anomalies_by_metric_def flag_rows_z map_snd_zip_z)
  next
    case False
    then show ?thesis
      by (simp add: detect_anomalies_by_metric_def calculate_z_scores_def)
  qed
  have w: "fl_ge (Fin 3.0) z \<and> fl_gt z (Fin 2.5) \<longrightarrow> calculate_severity z = ''warning''"
    by (cases z) (auto simp: calculate_severity_def fl_ge_def)
  have c: "fl_gt z (Fin 3.0) \<longrightarrow> calculate_severity z = ''critical''"
    by (simp add: calculate_severity_def)
  have i: "\<not> fl_gt z (Fin 2.5) \<longrightarrow> calculate_severity z = ''info''"
    by (cases z) (auto simp: calculate_severity_def)
  have e: "fl_eq z (z_score_threshold d) \<longrightarrow> \<not> fl_gt z (z_score_threshold d)"
    using fl_eq_not_gt by blast
  from a detect_within_group_z [of d g metric gv gc] detect_severity [of d metric by_group]
    detect_above [of d metric by_group] e c w i
  show ?thesis by blast
qed

lemma ex_col: "col (df example_detector) ''impressions'' = [Fin 0, Fin 0, Fin 0, Fin 0, Fin 0, Fin 0, Fin 0, Fin 0, Fin 0, Fin 0, Fin 0, Fin 0, Fin 0, Fin 0, Fin 0, Fin 4]"
  by (simp add: example_detector_def col_def example_row_def numeral_eq_Suc)

lemma ex_dropna: "dropna [Fin 0, Fin 0, Fin 0, Fin 0, Fin 0, Fin 0, Fin 0, Fin 0, Fin 0, Fin 0, Fin 0, Fin 0, Fin 0, Fin 0, Fin 0, Fin 4] = [Fin 0, Fin 0, Fin 0, Fin 0, Fin 0, Fin 0, Fin 0, Fin 0, Fin 0, Fin 0, Fin 0, Fin 0, Fin 0, Fin 0, Fin 0, Fin 4]"
  by (simp add: dropna_def)

lemma ex_mean: "series_mean [Fin 0, Fin 0, Fin 0, Fin 0, Fin 0, Fin 0, Fin 0, Fin 0, Fin 0, Fin 0, Fin 0, Fin 0, Fin 0, Fin 0, Fin 0, Fin 4] = Fin (1/4)"
  by (simp add: series_mean_def series_sum_def ex_dropna)

lemma ex_std: "series_std [Fin 0, Fin 0, Fin 0, Fin 0, Fin 0, Fin 0, Fin 0, Fin 0, Fin 0, Fin 0, Fin 0, Fin 0, Fin 0, Fin 0, Fin 0, Fin 4] = Fin 1"
  by (simp add: series_std_def ex_mean Let_def ex_dropna fl_sub_def)

lemma ex_z: "calculate_z_scores example_detector ''impressions'' =
   [Fin (1/4), Fin (1/4), Fin (1/4), Fin (1/4), Fin (1/4), Fin (1/4), Fin (1/4), Fin (1/4),
    Fin (1/4), Fin (1/4), Fin (1/4), Fin (1/4), Fin (1/4), Fin (1/4), Fin (1/4), Fin (15/4)]"
  by (simp add: calculate_z_scores_def ex_col Let_def ex_dropna ex_mean ex_std fl_sub_def)
    (simp add: example_detector_def)

text \<open>
  The examples of the claim at the default threshold 2.0, and the sample dataset, whose
  last row has Z-score 3.75.
\<close>

theorem flagging_and_severity_witness:
  "calculate_severity (Fin 3.1) = ''critical'' \<and> calculate_severity (Fin 2.6) = ''warning''
   \<and> calculate_severity (Fin 2.1) = ''info''
   \<and> fl_eq (Fin 2.0) (z_score_threshold example_detector)
   \<and> \<not> fl_gt (Fin 2.0) (z_score_threshold example_detector)
   \<and> map z_score (detect_anomalies_by_metric example_detector ''impressions'' None) = [Fin (15/4)]
   \<and> map severity (detect_anomalies_by_metric example_detector ''impressions'' None) = [''critical'']"
proof -
  have t: "z_score_threshold example_detector = Fin 2.0"
    by (simp add: example_detector_def)
  have h1: "fl_gt (Fin 3.1) (Fin 3.0)" by simp
  have h2: "fl_ge (Fin 3.0) (Fin 2.6) \<and> fl_gt (Fin 2.6) (Fin 2.5)" by (simp add: fl_ge_def)
  have h3: "\<not> fl_gt (Fin 2.1) (Fin 2.5)" by simp
  have h4: "fl_eq (Fin 2.0) (z_score_threshold example_detector)" by (simp add: t)
  have sev: "calculate_severity (Fin (15/4)) = ''critical''"
    by (simp add: calculate_severity_def)
  note i1 = flagging_and_severity [of example_detector "''impressions''" _ _ _ None "Fin 3.1"]
  note i2 = flagging_and_severity [of example_detector "''impressions''" _ _ _ None "Fin 2.6"]
  note i3 = flagging_and_severity [of example_detector "''impressions''" _ _ _ None "Fin 2.1"]
  note i4 = flagging_and_severity [of example_detector "''impressions''" _ _ _ None "Fin 2.0"]
  from i1 h1 have s1: "calculate_severity (Fin 3.1) = ''critical''" by blast
  from i2 h2 have s2: "calculate_severity (Fin 2.6) = ''warning''" by blast
  from i3 h3 have s3: "calculate_severity (Fin 2.1) = ''info''" by blast
  from i4 h4 have s4: "\<not> fl_gt (Fin 2.0) (z_score_threshold example_detector)" by blast
  from i1 have z: "map z_score (detect_anomalies_by_metric example_detector ''impressions'' None) =
      filter (\<lambda>z. fl_gt z (z_score_threshold example_detector))
        (calculate_z_scores example_detector ''impressions'')" by blast
  have z': "map z_score (detect_anomalies_by_metric example_detector ''impressions'' None) = [Fin (15/4)]"
    unfolding z ex_z t by simp
  from i1 have "map severity (detect_anomalies_by_metric example_detector ''impressions'' None) =
      map calculate_severity (map z_score (detect_anomalies_by_metric example_detector ''impressions'' None))"
    by blast
  then have s': "map severity (detect_anomalies_by_metric example_detector ''impressions'' None) = [''critical'']"
    unfolding z' by (simp add: sev)
  from s1 s2 s3 s4 h4 z' s' show ?thesis by blast
qed

section \<open>A standard deviation of zero\<close>

















section \<open>Recommendation counts\<close>

lemma length_slice_to_3: "length (slice_to 3 xs) = min 3 (length xs)"
  by (simp add: slice_to_def)

lemma spike_or_drop_type:
  "rec_type (spike_or_drop a) = ''spike_investigation'' \<or> rec_type (spike_or_drop a) = ''drop_investigation''"
  by (simp add: spike_or_drop_def)

lemma filter_spike_map: "filter is_spike_or_drop (map spike_or_drop xs) = map spike_or_drop xs"
  by (induction xs) (simp_all add: is_spike_or_drop_def spike_or_drop_def)

lemma filter_spike_recurring: "filter is_spike_or_drop (map recurring_rec xs) = []"
  by (induction xs) (auto simp: is_spike_or_drop_def recurring_rec_def)

lemma spike_drop_count:
  "length (filter is_spike_or_drop (generate_anomaly_recommendations d)) =
     min 3 (length (get_critical_anomalies d))"
proof -
  have u: "filter is_spike_or_drop
      [\<lparr>rec_type = ''urgent_investigation'', priority = ''critical'',
        rec_metric = None, detail = None\<rparr>] = []"
    by (simp add: is_spike_or_drop_def)
  show ?thesis
    unfolding generate_anomaly_recommendations_def Let_def filter_append
      filter_spike_map filter_spike_recurring
    using u by (simp add: length_slice_to_3)
qed

lemma length_map_filter: "length (List.map_filter f xs) \<le> length xs"
  by (induction xs) (auto simp: List.map_filter_simps split: option.splits)

lemma weakness_rec_count:
  "length (filter is_weakness_rec (generate_benchmark_recommendations b)) \<le> 3"
proof -
  let ?ws = "slice_to 3 (get_weaknesses b (Fin (- 10)))"
  have "length (filter is_weakness_rec (List.map_filter weakness_rec ?ws)) \<le> length (List.map_filter weakness_rec ?ws)"
    by simp
  also have "\<dots> \<le> length ?ws" by (rule length_map_filter)
  also have "\<dots> \<le> 3" by (simp add: length_slice_to_3)
  finally show ?thesis
    by (simp add: generate_benchmark_recommendations_def Let_def is_weakness_rec_def)
qed

text \<open>
  Claim C9. The anomaly pass emits one spike or drop investigation for each of the first
  three critical anomalies and no other recommendation of these two types, so at most 3;
  the benchmark pass emits at most one per-metric remediation for each of the first three
  weaknesses, so at most 3, however many anomalies or weaknesses there are.
\<close>

theorem recommendation_count_bounds:
  "length (filter is_spike_or_drop (generate_anomaly_recommendations d)) \<le> 3
   \<and> length (filter is_spike_or_drop (generate_anomaly_recommendations d)) =
       min 3 (length (get_critical_anomalies d))
   \<and> length (filter is_weakness_rec (generate_benchmark_recommendations b)) \<le> 3"
  using spike_drop_count [of d] weakness_rec_count [of b] by simp

section \<open>The stored anomalies\<close>

subsection \<open>Detection does not read the stored anomalies\<close>

lemma calculate_z_scores_state [simp]:
  "calculate_z_scores (d\<lparr>anomalies := old\<rparr>) metric = calculate_z_scores d metric"
  by (simp add: calculate_z_scores_def Let_def)

lemma flag_rows_state [simp]:
  "flag_rows (d\<lparr>anomalies := old\<rparr>) metric rzs = flag_rows d metric rzs"
  by (induction rzs) (auto simp: Let_def)

lemma flag_group_rows_state [simp]:
  "flag_group_rows (d\<lparr>anomalies := old\<rparr>) g metric gv gc rzs = flag_group_rows d g metric gv gc rzs"
  by (induction rzs) (auto simp: Let_def)

lemma detect_within_group_state [simp]:
  "detect_within_group (d\<lparr>anomalies := old\<rparr>) g metric gv gc = detect_within_group d g metric gv gc"
  by (simp add: detect_within_group_def)

lemma detect_state [simp]:
  "detect_anomalies_by_metric (d\<lparr>anomalies := old\<rparr>) metric by_group =
     detect_anomalies_by_metric d metric by_group"
  unfolding detect_anomalies_by_metric_def by (simp cong: option.case_cong)

lemma sweep_step_state [simp]: "sweep_step (d\<lparr>anomalies := old\<rparr>) = sweep_step d"
  by (simp add: sweep_step_def fun_eq_iff)

lemma detect_all_state:
  "anomalies (snd (detect_all_anomalies (d\<lparr>anomalies := old\<rparr>) ms)) =
     anomalies (snd (detect_all_anomalies d ms))"
  by (simp add: detect_all_anomalies_def Let_def cong: option.case_cong)

subsection \<open>What one sweep stores\<close>

lemma update_fresh: "k \<notin> fst ` set al \<Longrightarrow> AList.update k v al = al @ [(k, v)]"
  by (induction al) auto

lemma fold_sweep_distinct:
  "distinct ms \<Longrightarrow> set ms \<inter> fst ` set acc = {} \<Longrightarrow>
   fold (sweep_step d) ms acc =
     acc @ map (\<lambda>m. (m, detect_anomalies_by_metric d m None))
               (filter (\<lambda>m. detect_anomalies_by_metric d m None \<noteq> []) ms)"
proof (induction ms arbitrary: acc)
  case Nil
  then show ?case by simp
next
  case (Cons m ms)
  let ?f = "\<lambda>m. detect_anomalies_by_metric d m None"
  show ?case
  proof (cases "?f m = []")
    case True
    with Cons show ?thesis by (simp add: sweep_step_def)
  next
    case False
    from Cons.prems have fresh: "m \<notin> fst ` set acc" by auto
    have step: "sweep_step d m acc = acc @ [(m, ?f m)]"
      using False by (simp add: sweep_step_def update_fresh [OF fresh])
    have "set ms \<inter> fst ` set (acc @ [(m, ?f m)]) = {}"
      using Cons.prems by auto
    with Cons.IH [of "acc @ [(m, ?f m)]"] Cons.prems False step
    show ?thesis by simp
  qed
qed

lemma concat_filter_nonempty: "concat (map f (filter (\<lambda>m. f m \<noteq> []) ms)) = concat (map f ms)"
  by (induction ms) auto

lemma detect_all_distinct:
  assumes "distinct ms"
  shows "anomalies (snd (detect_all_anomalies d (Some ms))) =
     concat (map (\<lambda>m. detect_anomalies_by_metric d m None) ms)"
proof -
  have "concat (map snd (fold (sweep_step d) ms [])) =
      concat (map (\<lambda>m. detect_anomalies_by_metric d m None)
        (filter (\<lambda>m. detect_anomalies_by_metric d m None \<noteq> []) ms))"
    using fold_sweep_distinct [OF assms, of "[]" d] by (simp add: comp_def)
  then show ?thesis
    by (simp add: detect_all_anomalies_def Let_def concat_filter_nonempty)
qed

lemma set_update_subset: "set (AList.update k v al) \<subseteq> insert (k, v) (set al)"
  by (induction al) auto

lemma sweep_step_above:
  assumes "\<forall>p\<in>set acc. \<forall>a\<in>set (snd p). fl_gt (z_score a) (z_score_threshold d)"
  shows "\<forall>p\<in>set (sweep_step d m acc). \<forall>a\<in>set (snd p). fl_gt (z_score a) (z_score_threshold d)"
proof
  fix p assume p: "p \<in> set (sweep_step d m acc)"
  let ?f = "detect_anomalies_by_metric d m None"
  from p have "p \<in> set acc \<or> p = (m, ?f)"
    using set_update_subset [of m ?f acc]
    by (cases "?f = []") (auto simp: sweep_step_def)
  then show "\<forall>a\<in>set (snd p). fl_gt (z_score a) (z_score_threshold d)"
  proof
    assume "p \<in> set acc"
    with assms show ?thesis by blast
  next
    assume "p = (m, ?f)"
    then show ?thesis
      using detect_above [of d m None] by (simp add: list_all_iff)
  qed
qed

lemma fold_sweep_above:
  "\<forall>p\<in>set acc. \<forall>a\<in>set (snd p). fl_gt (z_score a) (z_score_threshold d) \<Longrightarrow>
   \<forall>p\<in>set (fold (sweep_step d) ms acc). \<forall>a\<in>set (snd p). fl_gt (z_score a) (z_score_threshold d)"
proof (induction ms arbitrary: acc)
  case Nil
  then show ?case by simp
next
  case (Cons m ms)
  from Cons.IH [OF sweep_step_above [OF Cons.prems]] show ?case by simp
qed

lemma detect_all_above:
  assumes "a \<in> set (anomalies (snd (detect_all_anomalies d ms)))"
  shows "fl_gt (z_score a) (z_score_threshold d)"
proof -
  obtain l where l: "anomalies (snd (detect_all_anomalies d ms)) = concat (map snd (fold (sweep_step d) l []))"
    by (simp add: detect_all_anomalies_def Let_def)
  have "\<forall>p\<in>set (fold (sweep_step d) l []). \<forall>a\<in>set (snd p). fl_gt (z_score a) (z_score_threshold d)"
    by (rule fold_sweep_above) simp
  with assms l show ?thesis by auto
qed

subsection \<open>Ranking\<close>

lemma set_insort_desc: "set (insort_desc key a xs) = insert a (set xs)"
  by (induction xs) auto

lemma set_sorted_desc: "set (sorted_desc key xs) = set xs"
  by (induction xs) (simp_all add: sorted_desc_def set_insort_desc)

lemma length_insort_desc: "length (insort_desc key a xs) = Suc (length xs)"
  by (induction xs) auto

lemma length_sorted_desc: "length (sorted_desc key xs) = length xs"
  by (induction xs) (simp_all add: sorted_desc_def length_insort_desc)

lemma set_slice_to: "set (slice_to n xs) \<subseteq> set xs"
  by (auto simp: slice_to_def dest: in_set_takeD)

lemma fl_ge_total: "x \<noteq> NaN \<Longrightarrow> y \<noteq> NaN \<Longrightarrow> \<not> fl_lt x y \<Longrightarrow> fl_ge x y"
  by (cases x; cases y) (auto simp: fl_lt_def fl_ge_def)

lemma fl_lt_ge: "fl_lt x y \<Longrightarrow> fl_ge y x"
  by (simp add: fl_lt_def fl_ge_def)

lemma fl_ge_trans: "fl_ge x y \<Longrightarrow> fl_ge y z \<Longrightarrow> fl_ge x z"
  by (cases x; cases y; cases z) (auto simp: fl_ge_def)

lemma sorted_insort_desc:
  assumes "key a \<noteq> NaN" "\<forall>x\<in>set xs. key x \<noteq> NaN"
    and "sorted_wrt (\<lambda>x y. fl_ge (key x) (key y)) xs"
  shows "sorted_wrt (\<lambda>x y. fl_ge (key x) (key y)) (insort_desc key a xs)"
  using assms
proof (induction xs)
  case Nil
  then show ?case by simp
next
  case (Cons b bs)
  show ?case
  proof (cases "fl_lt (key a) (key b)")
    case True
    then have "fl_ge (key b) (key a)" by (rule fl_lt_ge)
    with Cons True show ?thesis by (auto simp: set_insort_desc)
  next
    case False
    with Cons.prems have ab: "fl_ge (key a) (key b)" by (auto intro: fl_ge_total)
    then have "\<forall>c\<in>set bs. fl_ge (key a) (key c)"
      using Cons.prems by (auto intro: fl_ge_trans)
    with Cons.prems ab False show ?thesis by simp
  qed
qed

lemma sorted_sorted_desc:
  "\<forall>x\<in>set xs. key x \<noteq> NaN \<Longrightarrow> sorted_wrt (\<lambda>x y. fl_ge (key x) (key y)) (sorted_desc key xs)"
proof (induction xs)
  case Nil
  then show ?case by (simp add: sorted_desc_def)
next
  case (Cons a xs)
  then have "sorted_wrt (\<lambda>x y. fl_ge (key x) (key y)) (sorted_desc key xs)" by simp
  with Cons.prems have "sorted_wrt (\<lambda>x y. fl_ge (key x) (key y)) (insort_desc key a (sorted_desc key xs))"
    by (intro sorted_insort_desc) (auto simp: set_sorted_desc)
  then show ?case by (simp add: sorted_desc_def)
qed

lemma sorted_wrt_take: "sorted_wrt P xs \<Longrightarrow> sorted_wrt P (take n xs)"
  by (metis append_take_drop_id sorted_wrt_append)

lemma sorted_slice_to: "sorted_wrt P xs \<Longrightarrow> sorted_wrt P (slice_to n xs)"
  by (simp add: slice_to_def sorted_wrt_take)

lemma top_eq: "get_top_anomalies d n sev = slice_to n (sorted_desc z_score (filtered_by d sev))"
  by (simp add: get_top_anomalies_def)

lemma filtered_subset: "set (filtered_by d sev) \<subseteq> set (anomalies d)"
  by (auto simp: filtered_by_def split: option.splits)

lemma top_subset: "set (get_top_anomalies d n sev) \<subseteq> set (anomalies d)"
  using set_slice_to [of n "sorted_desc z_score (filtered_by d sev)"] filtered_subset [of d sev]
  by (auto simp: top_eq set_sorted_desc)

lemma top_sorted:
  assumes "\<forall>a\<in>set (anomalies d). z_score a \<noteq> NaN"
  shows "sorted_wrt (\<lambda>x y. fl_ge (z_score x) (z_score y)) (get_top_anomalies d n sev)"
proof -
  have "\<forall>a\<in>set (filtered_by d sev). z_score a \<noteq> NaN"
    using assms filtered_subset [of d sev] by blast
  then show ?thesis
    unfolding top_eq by (intro sorted_slice_to sorted_sorted_desc)
qed

lemma top_severity:
  "s \<noteq> [] \<Longrightarrow> a \<in> set (get_top_anomalies d n (Some s)) \<Longrightarrow> severity a = s"
  using set_slice_to [of n "sorted_desc z_score (filtered_by d (Some s))"]
  by (auto simp: top_eq set_sorted_desc filtered_by_def)

lemma top_length: "0 \<le> n \<Longrightarrow> length (get_top_anomalies d n sev) \<le> nat n"
  by (simp add: top_eq slice_to_def)

lemma fl_gt_not_nan: "fl_gt z t \<Longrightarrow> z \<noteq> NaN"
  by (cases z) auto

subsection \<open>Every call of the sweep is stored\<close>

lemma sweep_step_set:
  assumes "\<forall>p\<in>set acc. snd p = detect_anomalies_by_metric d (fst p) None"
  shows "set (sweep_step d m acc) =
     set acc \<union> (if detect_anomalies_by_metric d m None \<noteq> []
                 then {(m, detect_anomalies_by_metric d m None)} else {})"
proof (cases "detect_anomalies_by_metric d m None = []")
  case True
  then show ?thesis by (simp add: sweep_step_def)
next
  case False
  let ?v = "detect_anomalies_by_metric d m None"
  show ?thesis
  proof (cases "m \<in> fst ` set acc")
    case True
    then obtain v where v: "map_of acc m = Some v"
      by (cases "map_of acc m") (auto simp: map_of_eq_None_iff)
    then have "(m, v) \<in> set acc" by (rule map_of_SomeD)
    with assms have mem: "(m, ?v) \<in> set acc" by fastforce
    with assms v have "map_of acc m = Some ?v"
      using map_of_SomeD [OF v] by fastforce
    then have "AList.update m ?v acc = acc" by (rule AList.update_triv)
    with False mem show ?thesis by (auto simp: sweep_step_def)
  next
    case fresh: False
    with False show ?thesis by (simp add: sweep_step_def update_fresh)
  qed
qed

lemma fold_sweep_set:
  assumes "\<forall>p\<in>set acc. snd p = detect_anomalies_by_metric d (fst p) None"
  shows "set (fold (sweep_step d) ms acc) =
     set acc \<union> {(m, detect_anomalies_by_metric d m None) | m.
                  m \<in> set ms \<and> detect_anomalies_by_metric d m None \<noteq> []}"
  using assms
proof (induction ms arbitrary: acc)
  case Nil
  then show ?case by simp
next
  case (Cons m ms)
  have s: "set (sweep_step d m acc) =
     set acc \<union> (if detect_anomalies_by_metric d m None \<noteq> []
                 then {(m, detect_anomalies_by_metric d m None)} else {})"
    by (rule sweep_step_set [OF Cons.prems])
  have inv: "\<forall>p\<in>set (sweep_step d m acc). snd p = detect_anomalies_by_metric d (fst p) None"
    unfolding s using Cons.prems by (auto split: if_splits)
  have "set (fold (sweep_step d) ms (sweep_step d m acc)) =
     set (sweep_step d m acc) \<union> {(m, detect_anomalies_by_metric d m None) | m.
                  m \<in> set ms \<and> detect_anomalies_by_metric d m None \<noteq> []}"
    by (rule Cons.IH [OF inv])
  then show ?case unfolding s by (auto split: if_splits)
qed

lemma detect_all_set:
  "set (anomalies (snd (detect_all_anomalies d (Some ml)))) =
     (\<Union>m\<in>set ml. set (detect_anomalies_by_metric d m None))"
proof -
  have st: "set (fold (sweep_step d) ml []) =
     {(m, detect_anomalies_by_metric d m None) | m.
        m \<in> set ml \<and> detect_anomalies_by_metric d m None \<noteq> []}"
    using fold_sweep_set [of "[]" d ml] by simp
  have "(\<Union>p\<in>set (fold (sweep_step d) ml []). set (snd p)) =
     (\<Union>m\<in>set ml. set (detect_anomalies_by_metric d m None))"
  proof (intro set_eqI iffI)
    fix x assume "x \<in> (\<Union>p\<in>set (fold (sweep_step d) ml []). set (snd p))"
    with st show "x \<in> (\<Union>m\<in>set ml. set (detect_anomalies_by_metric d m None))" by auto
  next
    fix x assume "x \<in> (\<Union>m\<in>set ml. set (detect_anomalies_by_metric d m None))"
    then obtain m where m: "m \<in> set ml" and x: "x \<in> set (detect_anomalies_by_metric d m None)"
      by auto
    from x have "detect_anomalies_by_metric d m None \<noteq> []" by auto
    with m have "(m, detect_anomalies_by_metric d m None) \<in> set (fold (sweep_step d) ml [])"
      unfolding st by blast
    with x show "x \<in> (\<Union>p\<in>set (fold (sweep_step d) ml []). set (snd p))" by force
  qed
  then show ?thesis
    by (simp add: detect_all_anomalies_def Let_def)
qed

lemma detect_all_None:
  "detect_all_anomalies d None = detect_all_anomalies d (Some (numeric_columns (df d)))"
  by (simp add: detect_all_anomalies_def)

subsection \<open>The ranking is the stable descending sort of the store\<close>

lemma count_insort_desc: "count_list (insort_desc key a xs) b = count_list (a # xs) b"
  by (induction xs) auto

lemma count_sorted_desc: "count_list (sorted_desc key xs) b = count_list xs b"
  by (induction xs) (simp_all add: sorted_desc_def count_insort_desc)

lemma fl_lt_irrefl: "\<not> fl_lt x x"
  by (simp add: fl_lt_def fl_gt_irrefl)

lemma stable_insort_desc:
  "filter (\<lambda>x. key x = k) (insort_desc key a xs) = filter (\<lambda>x. key x = k) (a # xs)"
proof (induction xs)
  case Nil
  then show ?case by simp
next
  case (Cons b bs)
  show ?case
  proof (cases "fl_lt (key a) (key b)")
    case True
    then have "key a \<noteq> key b" using fl_lt_irrefl [of "key b"] by auto
    with True Cons show ?thesis by auto
  next
    case False
    then show ?thesis by simp
  qed
qed

lemma stable_sorted_desc:
  "filter (\<lambda>x. key x = k) (sorted_desc key xs) = filter (\<lambda>x. key x = k) xs"
proof (induction xs)
  case Nil
  then show ?case by (simp add: sorted_desc_def)
next
  case (Cons a xs)
  have "sorted_desc key (a # xs) = insort_desc key a (sorted_desc key xs)"
    by (simp add: sorted_desc_def)
  then show ?case by (simp add: stable_insort_desc Cons)
qed

lemma length_filtered_by: "length (filtered_by e sev) \<le> length (anomalies e)"
  by (simp add: filtered_by_def split: option.splits)

lemma full_ranking:
  "get_top_anomalies e (int (length (anomalies e))) sev = sorted_desc z_score (filtered_by e sev)"
  using length_filtered_by [of e sev]
  by (simp add: get_top_anomalies_def slice_to_def length_sorted_desc)

lemma top_take:
  "0 \<le> n \<Longrightarrow> get_top_anomalies e n sev =
     take (nat n) (get_top_anomalies e (int (length (anomalies e))) sev)"
  unfolding full_ranking by (simp add: get_top_anomalies_def slice_to_def)

lemma filtered_by_cases:
  "filtered_by e None = anomalies e"
  "filtered_by e (Some []) = anomalies e"
  "s \<noteq> [] \<Longrightarrow> filtered_by e (Some s) = filter (\<lambda>a. severity a = s) (anomalies e)"
  by (simp_all add: filtered_by_def)

lemma full_sorted:
  "sorted_wrt (\<lambda>x y. fl_ge (z_score x) (z_score y))
     (get_top_anomalies (snd (detect_all_anomalies d ms))
        (int (length (anomalies (snd (detect_all_anomalies d ms))))) sev)"
  by (rule top_sorted) (auto dest: detect_all_above fl_gt_not_nan)

subsection \<open>Insights and recommendations read the store\<close>

lemma spike_drop_recs:
  "filter is_spike_or_drop (generate_anomaly_recommendations e) =
     map spike_or_drop (take 3 (filter (\<lambda>a. severity a = ''critical'') (anomalies e)))"
proof -
  have u: "filter is_spike_or_drop
      [\<lparr>rec_type = ''urgent_investigation'', priority = ''critical'',
        rec_metric = None, detail = None\<rparr>] = []"
    by (simp add: is_spike_or_drop_def)
  show ?thesis
    unfolding generate_anomaly_recommendations_def Let_def filter_append
      filter_spike_map filter_spike_recurring
    using u by (simp add: slice_to_def get_critical_anomalies_def)
qed

lemma filter_urgent_recurring:
  "filter (\<lambda>r. rec_type r = ''urgent_investigation'') (map recurring_rec xs) = []"
  by (induction xs) (auto simp: recurring_rec_def)

lemma filter_urgent_spike:
  "filter (\<lambda>r. rec_type r = ''urgent_investigation'') (map spike_or_drop xs) = []"
  by (induction xs) (auto simp: spike_or_drop_def)

lemma urgent_rec:
  "map priority (filter (\<lambda>r. rec_type r = ''urgent_investigation'')
                   (generate_anomaly_recommendations e)) =
     (if filter (\<lambda>a. severity a = ''critical'') (anomalies e) \<noteq> [] then [''critical''] else [])"
  unfolding generate_anomaly_recommendations_def Let_def filter_append
    filter_urgent_recurring filter_urgent_spike
  by (simp add: get_critical_anomalies_def)

lemma filter_critical_metric:
  "filter (\<lambda>i. ins_type i = ''critical_anomalies'') (map metric_insight xs) = []"
  by (induction xs) (auto simp: metric_insight_def)

lemma filter_top_metric:
  "filter (\<lambda>i. ins_type i = ''top_critical_detail'') (map metric_insight xs) = []"
  by (induction xs) (auto simp: metric_insight_def)

lemma critical_insight:
  "map ins_count (filter (\<lambda>i. ins_type i = ''critical_anomalies'') (generate_anomaly_insights e)) =
     (if filter (\<lambda>a. severity a = ''critical'') (anomalies e) \<noteq> []
      then [Some (length (filter (\<lambda>a. severity a = ''critical'') (anomalies e)))] else [])"
  unfolding generate_anomaly_insights_def Let_def filter_append filter_critical_metric
  by simp

lemma hd_top_one:
  assumes "filter (\<lambda>a. severity a = ''critical'') (anomalies e) \<noteq> []"
  shows "get_top_anomalies e 1 (Some ''critical'') =
     [hd (sorted_desc z_score (filter (\<lambda>a. severity a = ''critical'') (anomalies e)))]"
proof -
  let ?c = "filter (\<lambda>a. severity a = ''critical'') (anomalies e)"
  have "length (sorted_desc z_score ?c) = length ?c" by (rule length_sorted_desc)
  with assms have "sorted_desc z_score ?c \<noteq> []" by auto
  then have "take 1 (sorted_desc z_score ?c) = [hd (sorted_desc z_score ?c)]"
    by (cases "sorted_desc z_score ?c") simp_all
  then show ?thesis
    by (simp add: get_top_anomalies_def slice_to_def filtered_by_def)
qed

lemma top_critical_insight:
  "map ins_detail (filter (\<lambda>i. ins_type i = ''top_critical_detail'') (generate_anomaly_insights e)) =
     map Some (get_top_anomalies e 1 (Some ''critical''))"
proof (cases "filter (\<lambda>a. severity a = ''critical'') (anomalies e) = []")
  case True
  then have "get_top_anomalies e 1 (Some ''critical'') = []"
    by (simp add: get_top_anomalies_def slice_to_def filtered_by_def sorted_desc_def)
  with True show ?thesis
    unfolding generate_anomaly_insights_def Let_def filter_append filter_top_metric
    by simp
next
  case False
  with hd_top_one [OF False] show ?thesis
    unfolding generate_anomaly_insights_def Let_def filter_append filter_top_metric
    by simp
qed

lemma analyze_all_reads_store:
  "snd (analyze_all d ms) = snd (detect_all_anomalies d ms)"
  "summary_anomalies (fst (analyze_all d ms)) = anomalies (snd (analyze_all d ms))"
  "top_anomalies (fst (analyze_all d ms)) = get_top_anomalies (snd (analyze_all d ms)) 5 None"
  "summary_insights (fst (analyze_all d ms)) = generate_anomaly_insights (snd (analyze_all d ms))"
  "summary_recommendations (fst (analyze_all d ms)) =
     generate_anomaly_recommendations (snd (analyze_all d ms))"
  by (simp_all add: analyze_all_def get_summary_def Let_def)

text \<open>
  Claim C8. Within one run the sweep calls the detection once for each metric, and the
  stored anomalies are the anomalies of every one of these calls, not of the last one
  only: as a set for any list of metrics, and as the concatenation in metric order for
  distinct metrics. The run's summary, ranking, insights and recommendations read this
  store. The ranking is the stable sort of the stored anomalies (filtered by severity when
  one is given) into descending Z-score order, cut to its first \<open>n\<close> items: the full
  ranking has the items of the filtered store with their multiplicities, keeps the stored
  order among equal Z-scores, is in non-increasing order after a sweep, and the top \<open>n\<close>
  is its prefix. The spike and drop recommendations are made from the first three stored
  critical anomalies, the urgent recommendation and the critical insight exist exactly
  when a critical anomaly is stored, and the insight counts them; the most critical
  anomaly of the insights is the top stored critical anomaly.
\<close>

theorem stored_anomalies_feed_ranking:
  "set (anomalies (snd (detect_all_anomalies d (Some ml)))) =
      (\<Union>m\<in>set ml. set (detect_anomalies_by_metric d m None))
   \<and> (distinct ml \<longrightarrow>
        anomalies (snd (detect_all_anomalies d (Some ml))) =
          concat (map (\<lambda>m. detect_anomalies_by_metric d m None) ml))
   \<and> detect_all_anomalies d None = detect_all_anomalies d (Some (numeric_columns (df d)))
   \<and> snd (analyze_all d ms) = snd (detect_all_anomalies d ms)
   \<and> summary_anomalies (fst (analyze_all d ms)) = anomalies (snd (analyze_all d ms))
   \<and> top_anomalies (fst (analyze_all d ms)) = get_top_anomalies (snd (analyze_all d ms)) 5 None
   \<and> summary_insights (fst (analyze_all d ms)) = generate_anomaly_insights (snd (analyze_all d ms))
   \<and> summary_recommendations (fst (analyze_all d ms)) =
        generate_anomaly_recommendations (snd (analyze_all d ms))
   \<and> filtered_by e None = anomalies e
   \<and> (s \<noteq> [] \<longrightarrow> filtered_by e (Some s) = filter (\<lambda>a. severity a = s) (anomalies e))
   \<and> (0 \<le> n \<longrightarrow>
        get_top_anomalies e n sev =
          take (nat n) (get_top_anomalies e (int (length (anomalies e))) sev))
   \<and> length (get_top_anomalies e (int (length (anomalies e))) sev) = length (filtered_by e sev)
   \<and> count_list (get_top_anomalies e (int (length (anomalies e))) sev) a =
        count_list (filtered_by e sev) a
   \<and> filter (\<lambda>x. z_score x = z) (get_top_anomalies e (int (length (anomalies e))) sev) =
        filter (\<lambda>x. z_score x = z) (filtered_by e sev)
   \<and> sorted_wrt (\<lambda>x y. fl_ge (z_score x) (z_score y))
        (get_top_anomalies (snd (detect_all_anomalies d ms)) n sev)
   \<and> filter is_spike_or_drop (generate_anomaly_recommendations e) =
        map spike_or_drop (take 3 (filter (\<lambda>a. severity a = ''critical'') (anomalies e)))
   \<and> map priority (filter (\<lambda>r. rec_type r = ''urgent_investigation'')
                      (generate_anomaly_recommendations e)) =
        (if filter (\<lambda>a. severity a = ''critical'') (anomalies e) \<noteq> [] then [''critical''] else [])
   \<and> map ins_count (filter (\<lambda>i. ins_type i = ''critical_anomalies'')
                       (generate_anomaly_insights e)) =
        (if filter (\<lambda>a. severity a = ''critical'') (anomalies e) \<noteq> []
         then [Some (length (filter (\<lambda>a. severity a = ''critical'') (anomalies e)))] else [])
   \<and> map ins_detail (filter (\<lambda>i. ins_type i = ''top_critical_detail'')
                        (generate_anomaly_insights e)) =
        map Some (get_top_anomalies e 1 (Some ''critical''))"
proof -
  have srt: "sorted_wrt (\<lambda>x y. fl_ge (z_score x) (z_score y))
        (get_top_anomalies (snd (detect_all_anomalies d ms)) n sev)"
    by (rule top_sorted) (auto dest: detect_all_above fl_gt_not_nan)
  have len: "length (get_top_anomalies e (int (length (anomalies e))) sev) = length (filtered_by e sev)"
    by (simp add: full_ranking length_sorted_desc)
  have cnt: "count_list (get_top_anomalies e (int (length (anomalies e))) sev) a =
        count_list (filtered_by e sev) a"
    by (simp add: full_ranking count_sorted_desc)
  have stb: "filter (\<lambda>x. z_score x = z) (get_top_anomalies e (int (length (anomalies e))) sev) =
        filter (\<lambda>x. z_score x = z) (filtered_by e sev)"
    by (simp add: full_ranking stable_sorted_desc)
  have tk: "0 \<le> n \<longrightarrow>
        get_top_anomalies e n sev =
          take (nat n) (get_top_anomalies e (int (length (anomalies e))) sev)"
    using top_take by blast
  have fs: "s \<noteq> [] \<longrightarrow> filtered_by e (Some s) = filter (\<lambda>a. severity a = s) (anomalies e)"
    by (simp add: filtered_by_cases)
  have dst: "distinct ml \<longrightarrow>
        anomalies (snd (detect_all_anomalies d (Some ml))) =
          concat (map (\<lambda>m. detect_anomalies_by_metric d m None) ml)"
    using detect_all_distinct by blast
  show ?thesis
    apply (intro conjI)
    apply (rule detect_all_set)
    apply (rule dst)
    apply (rule detect_all_None)
    apply (rule analyze_all_reads_store)+
    apply (rule filtered_by_cases)
    apply (rule fs)
    apply (rule tk)
    apply (rule len)
    apply (rule cnt)
    apply (rule stb)
    apply (rule srt)
    apply (rule spike_drop_recs)
    apply (rule urgent_rec)
    apply (rule critical_insight)
    apply (rule top_critical_insight)
    done
qed

subsection \<open>The sample with two metrics\<close>

lemma flag_rows_metric: "\<forall>a\<in>set (flag_rows d metric rzs). anom_metric a = metric"
  by (induction d metric rzs rule: flag_rows.induct) (simp_all add: Let_def)

lemma detect_metric:
  "map anom_metric (detect_anomalies_by_metric d metric None) =
     map (\<lambda>a. metric) (detect_anomalies_by_metric d metric None)"
  using flag_rows_metric [of d metric] by (simp add: detect_anomalies_by_metric_def)

lemma two_col:
  "col (df two_metric_detector) m = [Fin 0, Fin 0, Fin 0, Fin 0, Fin 0, Fin 0, Fin 0, Fin 0, Fin 0, Fin 0, Fin 0, Fin 0, Fin 0, Fin 0, Fin 0, Fin 4]"
  by (simp add: two_metric_detector_def col_def example_row_def numeral_eq_Suc)

lemma two_z:
  "m \<in> set (columns (df two_metric_detector)) \<Longrightarrow>
   calculate_z_scores two_metric_detector m =
   [Fin (1/4), Fin (1/4), Fin (1/4), Fin (1/4), Fin (1/4), Fin (1/4), Fin (1/4), Fin (1/4),
    Fin (1/4), Fin (1/4), Fin (1/4), Fin (1/4), Fin (1/4), Fin (1/4), Fin (1/4), Fin (15/4)]"
  by (simp add: calculate_z_scores_def two_col Let_def ex_dropna ex_mean ex_std fl_sub_def)

lemma two_detect_z:
  assumes "m \<in> set (columns (df two_metric_detector))"
  shows "map z_score (detect_anomalies_by_metric two_metric_detector m None) = [Fin (15/4)]"
proof -
  have t: "z_score_threshold two_metric_detector = Fin 2.0"
    by (simp add: two_metric_detector_def)
  have "map z_score (detect_anomalies_by_metric two_metric_detector m None) =
      filter (\<lambda>z. fl_gt z (z_score_threshold two_metric_detector))
        (calculate_z_scores two_metric_detector m)"
    using assms by (simp add: detect_anomalies_by_metric_def flag_rows_z map_snd_zip_z)
  then show ?thesis
    by (simp add: two_z [OF assms] t)
qed

lemma two_detect_metric:
  assumes "m \<in> set (columns (df two_metric_detector))"
  shows "map anom_metric (detect_anomalies_by_metric two_metric_detector m None) = [m]"
proof -
  have "length (map z_score (detect_anomalies_by_metric two_metric_detector m None)) = 1"
    by (simp only: two_detect_z [OF assms]) simp
  then obtain a where "detect_anomalies_by_metric two_metric_detector m None = [a]"
    by (cases "detect_anomalies_by_metric two_metric_detector m None") auto
  then show ?thesis using detect_metric [of two_metric_detector m] by simp
qed

lemma two_columns:
  "''impressions'' \<in> set (columns (df two_metric_detector))"
  "''clicks'' \<in> set (columns (df two_metric_detector))"
  by (simp_all add: two_metric_detector_def)

text \<open>
  One sweep over both metrics of the sample stores the anomaly of each call. Both have
  Z-score 3.75, so the top anomaly is the one stored first.
\<close>

theorem stored_anomalies_feed_ranking_witness:
  "distinct [''impressions'', ''clicks'']
   \<and> map anom_metric (anomalies two_swept) = [''impressions'', ''clicks'']
   \<and> map z_score (anomalies two_swept) = [Fin (15/4), Fin (15/4)]
   \<and> (0::int) \<le> 1
   \<and> get_top_anomalies two_swept (int (length (anomalies two_swept))) None = anomalies two_swept
   \<and> map anom_metric (get_top_anomalies two_swept 1 None) = [''impressions'']
   \<and> ''critical'' \<noteq> []
   \<and> filtered_by two_swept (Some ''critical'') =
        filter (\<lambda>a. severity a = ''critical'') (anomalies two_swept)"
proof -
  let ?full = "get_top_anomalies two_swept (int (length (anomalies two_swept))) None"
  note t = stored_anomalies_feed_ranking [where d = two_metric_detector
      and ml = "[''impressions'', ''clicks'']" and e = two_swept and n = 1 and sev = None
      and s = "''critical''" and z = "Fin (15/4)"]
  have h1: "distinct [''impressions'', ''clicks'']" by simp
  have h2: "(0::int) \<le> 1" by simp
  have h3: "''critical'' \<noteq> []" by simp
  from t h1 have st: "anomalies two_swept =
      concat (map (\<lambda>m. detect_anomalies_by_metric two_metric_detector m None)
                  [''impressions'', ''clicks''])"
    unfolding two_swept_def by blast
  then have st': "anomalies two_swept =
      detect_anomalies_by_metric two_metric_detector ''impressions'' None
      @ detect_anomalies_by_metric two_metric_detector ''clicks'' None"
    by simp
  have ms: "map anom_metric (anomalies two_swept) = [''impressions'', ''clicks'']"
    unfolding st' by (simp add: two_detect_metric two_columns)
  have zs: "map z_score (anomalies two_swept) = [Fin (15/4), Fin (15/4)]"
    unfolding st' by (simp add: two_detect_z two_columns)
  from t have fb: "filtered_by two_swept None = anomalies two_swept" by blast
  from t have len: "length ?full = length (filtered_by two_swept None)" by blast
  from t have stb: "filter (\<lambda>x. z_score x = Fin (15/4)) ?full =
      filter (\<lambda>x. z_score x = Fin (15/4)) (filtered_by two_swept None)" by blast
  have allz: "\<forall>x\<in>set (anomalies two_swept). z_score x = Fin (15/4)"
  proof
    fix x assume "x \<in> set (anomalies two_swept)"
    then have "z_score x \<in> set (map z_score (anomalies two_swept))" by simp
    then show "z_score x = Fin (15/4)" unfolding zs by simp
  qed
  then have f1: "filter (\<lambda>x. z_score x = Fin (15/4)) (anomalies two_swept) = anomalies two_swept"
    by simp
  have "length (filter (\<lambda>x. z_score x = Fin (15/4)) ?full) = length ?full"
    unfolding stb fb f1 len fb by simp
  then have "filter (\<lambda>x. z_score x = Fin (15/4)) ?full = ?full"
    by (metis length_filter_less filter_True less_irrefl)
  with stb fb f1 have full: "?full = anomalies two_swept" by simp
  from t h2 have "get_top_anomalies two_swept 1 None = take (nat 1) ?full" by blast
  then have "map anom_metric (get_top_anomalies two_swept 1 None) =
      take 1 (map anom_metric (anomalies two_swept))"
    unfolding full by (simp add: take_map)
  then have top: "map anom_metric (get_top_anomalies two_swept 1 None) = [''impressions'']"
    unfolding ms by simp
  from t h3 have crit: "filtered_by two_swept (Some ''critical'') =
        filter (\<lambda>a. severity a = ''critical'') (anomalies two_swept)" by blast
  from h1 ms zs h2 full top h3 crit show ?thesis by blast
qed

section \<open>Benchmark comparisons\<close>

subsection \<open>Every entry is made by the entry function\<close>

lemma compare_step_all:
  assumes "\<forall>p\<in>set acc. P (fst p) (snd p)" and "\<And>k cv bv. P k (entry k cv bv)"
  shows "\<forall>p\<in>set (compare_step entry kpis bench kb acc). P (fst p) (snd p)"
proof (cases kb)
  case (Pair k bn)
  show ?thesis
  proof (cases "map_of kpis k")
    case None
    with Pair assms(1) show ?thesis by (simp add: compare_step_def)
  next
    case (Some cv)
    show ?thesis
    proof (cases "map_of bench bn")
      case None
      with Pair Some assms(1) show ?thesis by (simp add: compare_step_def)
    next
      case (Some bv)
      have "set (AList.update k (entry k cv bv) acc) \<subseteq> insert (k, entry k cv bv) (set acc)"
        by (rule set_update_subset)
      with assms Pair \<open>map_of kpis k = Some cv\<close> Some show ?thesis
        by (auto simp: compare_step_def)
    qed
  qed
qed

lemma fold_compare_step_all:
  assumes "\<forall>p\<in>set acc. P (fst p) (snd p)" and "\<And>k cv bv. P k (entry k cv bv)"
  shows "\<forall>p\<in>set (fold (compare_step entry kpis bench) kbs acc). P (fst p) (snd p)"
  using assms(1)
proof (induction kbs arbitrary: acc)
  case Nil
  then show ?case by simp
next
  case (Cons kb kbs)
  from Cons.IH [OF compare_step_all [of acc P entry, OF Cons.prems assms(2)]]
  show ?case by simp
qed

lemma overall_entries:
  assumes "\<And>k cv bv. P k (overall_entry k cv bv)"
    and "map_of (fst (compare_overall_metrics b)) kpi = Some e"
  shows "P kpi e"
proof -
  from assms(2) have m: "(kpi, e) \<in> set (fst (compare_overall_metrics b))"
    by (rule map_of_SomeD)
  show ?thesis
  proof (cases "map_of (benchmarks b) ''overall''")
    case None
    with m show ?thesis by (simp add: compare_overall_metrics_def)
  next
    case (Some ob)
    have "\<forall>p\<in>set (fold (compare_step overall_entry (ks_overall (summary b)) ob) kpi_bench_map []).
        P (fst p) (snd p)"
      by (rule fold_compare_step_all) (simp_all add: assms(1))
    with m Some show ?thesis
      by (auto simp: compare_overall_metrics_def Let_def)
  qed
qed

lemma channel_fold_all:
  assumes "\<forall>q\<in>set acc. \<forall>p\<in>set (snd q). P (fst p) (snd p)"
    and "\<And>k cv bv. P k (channel_entry k cv bv)"
  shows "\<forall>q\<in>set (fold (\<lambda>(channel, client_kpi) acc.
            AList.update channel
              (fold (compare_step channel_entry client_kpi (channel_bench_of b channel)) kpi_bench_map [])
              acc) cl acc).
          \<forall>p\<in>set (snd q). P (fst p) (snd p)"
  using assms(1)
proof (induction cl arbitrary: acc)
  case Nil
  then show ?case by simp
next
  case (Cons c cl)
  obtain channel client_kpi where c: "c = (channel, client_kpi)" by (cases c)
  let ?inner = "fold (compare_step channel_entry client_kpi (channel_bench_of b channel)) kpi_bench_map []"
  have inner: "\<forall>p\<in>set ?inner. P (fst p) (snd p)"
    by (rule fold_compare_step_all) (simp_all add: assms(2))
  have "\<forall>q\<in>set (AList.update channel ?inner acc). \<forall>p\<in>set (snd q). P (fst p) (snd p)"
    using set_update_subset [of channel ?inner acc] Cons.prems inner by fastforce
  from Cons.IH [OF this] show ?case by (simp add: c)
qed

lemma channel_entries:
  assumes "\<And>k cv bv. P k (channel_entry k cv bv)"
    and "map_of (fst (compare_by_channel b)) channel = Some cc"
    and "map_of cc kpi = Some e"
  shows "P kpi e"
proof -
  from assms(2) have m: "(channel, cc) \<in> set (fst (compare_by_channel b))"
    by (rule map_of_SomeD)
  from assms(3) have k: "(kpi, e) \<in> set cc" by (rule map_of_SomeD)
  show ?thesis
  proof (cases "ks_by_channel (summary b)")
    case None
    with m show ?thesis by (simp add: compare_by_channel_def)
  next
    case (Some cl)
    show ?thesis
    proof (cases "benchmarks b = []")
      case True
      with m Some show ?thesis by (simp add: compare_by_channel_def)
    next
      case False
      have "\<forall>q\<in>set (fold (\<lambda>(channel, client_kpi) acc.
            AList.update channel
              (fold (compare_step channel_entry client_kpi (channel_bench_of b channel)) kpi_bench_map [])
              acc) cl []).
          \<forall>p\<in>set (snd q). P (fst p) (snd p)"
        by (rule channel_fold_all) (simp_all add: assms(1))
      with m k Some False show ?thesis
        by (fastforce simp: compare_by_channel_def Let_def)
    qed
  qed
qed

text \<open>
  On finite percentages the ladders of the code are the ladders of the specification.
\<close>

lemma overall_tier_ladder: "overall_tier (Fin x) = overall_ladder_spec x"
  by (simp add: overall_tier_def overall_ladder_spec_def fl_lt_def)

lemma channel_tier_ladder: "channel_tier (Fin x) = channel_ladder_spec x"
  by (simp add: channel_tier_def channel_ladder_spec_def fl_lt_def)

text \<open>
  Claim C4, as amended. The tier of every overall entry is the overall ladder applied to
  its percentage difference, the tier of every channel entry is the channel ladder applied
  to its percentage difference; the ladders are the ones stated (overall: below 5 in
  absolute value in line, above 20 top 20, above 10 top 40, below -20 bottom 20, below -10
  bottom 40, else average; channel: the same with 15 and 5 for 20 and 10). A percentage
  difference of 12 is tiered top 40 at both granularities, since 12 is not above 15; the
  two ladders differ for instance at 17, top 40 overall and top 20 for a channel.
\<close>

theorem tier_ladders:
  "(map_of (fst (compare_overall_metrics b)) kpi = Some e \<longrightarrow> tier e = overall_tier (pct_difference e))
   \<and> (map_of (fst (compare_by_channel b)) channel = Some cc \<and> map_of cc kpi = Some e' \<longrightarrow>
        tier e' = channel_tier (pct_difference e'))
   \<and> overall_tier (Fin x) = overall_ladder_spec x
   \<and> channel_tier (Fin x) = channel_ladder_spec x
   \<and> overall_tier (Fin 12) = ''top_40'' \<and> channel_tier (Fin 12) = ''top_40''
   \<and> overall_tier (Fin 17) = ''top_40'' \<and> channel_tier (Fin 17) = ''top_20''"
proof -
  have o: "tier e = overall_tier (pct_difference e)"
    if "map_of (fst (compare_overall_metrics b)) kpi = Some e"
    by (rule overall_entries [where P = "\<lambda>k e. tier e = overall_tier (pct_difference e)", OF _ that])
      (simp add: overall_entry_def Let_def)
  have c: "tier e' = channel_tier (pct_difference e')"
    if "map_of (fst (compare_by_channel b)) channel = Some cc" "map_of cc kpi = Some e'"
    by (rule channel_entries [where P = "\<lambda>k e. tier e = channel_tier (pct_difference e)", OF _ that])
      (simp add: channel_entry_def Let_def)
  have v: "overall_tier (Fin 12) = ''top_40''" "channel_tier (Fin 12) = ''top_40''"
    "overall_tier (Fin 17) = ''top_40''" "channel_tier (Fin 17) = ''top_20''"
    by (simp_all add: overall_tier_def channel_tier_def fl_lt_def)
  from o c v overall_tier_ladder [of x] channel_tier_ladder [of x] show ?thesis by blast
qed

text \<open>
  Claim C5, as amended. In every overall comparison the difference is client minus
  benchmark, the status is above when the difference is positive and below otherwise, and
  the performance of a positive difference is worse for cpc and cpa and better for the
  other KPIs (and the other way round otherwise). A channel comparison has no performance
  entry.
\<close>

theorem status_and_performance:
  "(map_of (fst (compare_overall_metrics b)) kpi = Some e \<longrightarrow>
      difference e = Some (fl_sub (client_value e) (benchmark_value e))
      \<and> status e =
          Some (if fl_gt (fl_sub (client_value e) (benchmark_value e)) (Fin 0)
                then ''above'' else ''below'')
      \<and> performance e =
          Some (if kpi = ''cpc'' \<or> kpi = ''cpa''
                then (if fl_gt (fl_sub (client_value e) (benchmark_value e)) (Fin 0)
                      then ''worse'' else ''better'')
                else (if fl_gt (fl_sub (client_value e) (benchmark_value e)) (Fin 0)
                      then ''better'' else ''worse'')))
   \<and> (map_of (fst (compare_by_channel b)) channel = Some cc \<and> map_of cc kpi = Some e' \<longrightarrow>
        performance e' = None)"
proof -
  let ?P = "\<lambda>kpi e. difference e = Some (fl_sub (client_value e) (benchmark_value e))
      \<and> status e =
          Some (if fl_gt (fl_sub (client_value e) (benchmark_value e)) (Fin 0)
                then ''above'' else ''below'')
      \<and> performance e =
          Some (if kpi = ''cpc'' \<or> kpi = ''cpa''
                then (if fl_gt (fl_sub (client_value e) (benchmark_value e)) (Fin 0)
                      then ''worse'' else ''better'')
                else (if fl_gt (fl_sub (client_value e) (benchmark_value e)) (Fin 0)
                      then ''better'' else ''worse''))"
  have o: "?P kpi e" if "map_of (fst (compare_overall_metrics b)) kpi = Some e"
    by (rule overall_entries [where P = ?P, OF _ that]) (simp add: overall_entry_def Let_def)
  have c: "performance e' = None"
    if "map_of (fst (compare_by_channel b)) channel = Some cc" "map_of cc kpi = Some e'"
    by (rule channel_entries [where P = "\<lambda>k e. performance e = None", OF _ that])
      (simp add: channel_entry_def Let_def)
  from o c show ?thesis by blast
qed

lemma ex_overall:
  "fst (compare_overall_metrics example_analyzer) =
     [(''ctr'', overall_entry ''ctr'' (Fin 112) (Fin 100)),
      (''cpc'', overall_entry ''cpc'' (Fin 2) (Fin 1)),
      (''roas'', overall_entry ''roas'' (Fin 5) (Fin 4))]"
  by (simp add: compare_overall_metrics_def example_analyzer_def kpi_bench_map_def
      compare_step_def Let_def)

lemma ex_channel:
  "fst (compare_by_channel example_analyzer) =
     [(''email'', [(''ctr'', channel_entry ''ctr'' (Fin 112) (Fin 100)),
                   (''cpc'', channel_entry ''cpc'' (Fin 2) (Fin 1))])]"
  by (simp add: compare_by_channel_def example_analyzer_def kpi_bench_map_def
      compare_step_def channel_bench_of_def Let_def)


text \<open>
  The sample comparator, evaluated.
\<close>

lemma ex_pct: "pct_of (fl_sub (Fin 112) (Fin 100)) (Fin 100) = Fin 12"
  by (simp add: pct_of_def fl_sub_def)

text \<open>
  The sample comparator: a click-through rate of 112 against a benchmark of 100, overall
  and for the channel.
\<close>

theorem tier_ladders_witness:
  "map_of (fst (compare_overall_metrics example_analyzer)) ''ctr''
     = Some (overall_entry ''ctr'' (Fin 112) (Fin 100))
   \<and> pct_difference (overall_entry ''ctr'' (Fin 112) (Fin 100)) = Fin 12
   \<and> tier (overall_entry ''ctr'' (Fin 112) (Fin 100)) = ''top_40''
   \<and> map_of (fst (compare_by_channel example_analyzer)) ''email''
     = Some [(''ctr'', channel_entry ''ctr'' (Fin 112) (Fin 100)),
             (''cpc'', channel_entry ''cpc'' (Fin 2) (Fin 1))]
   \<and> map_of [(''ctr'', channel_entry ''ctr'' (Fin 112) (Fin 100)),
              (''cpc'', channel_entry ''cpc'' (Fin 2) (Fin 1))] ''ctr''
     = Some (channel_entry ''ctr'' (Fin 112) (Fin 100))
   \<and> pct_difference (channel_entry ''ctr'' (Fin 112) (Fin 100)) = Fin 12
   \<and> tier (channel_entry ''ctr'' (Fin 112) (Fin 100)) = ''top_40''
   \<and> overall_ladder_spec 17 = ''top_40'' \<and> channel_ladder_spec 17 = ''top_20''"
proof -
  note t = tier_ladders [where b = example_analyzer and kpi = "''ctr''"
      and e = "overall_entry ''ctr'' (Fin 112) (Fin 100)" and channel = "''email''"
      and cc = "[(''ctr'', channel_entry ''ctr'' (Fin 112) (Fin 100)),
                 (''cpc'', channel_entry ''cpc'' (Fin 2) (Fin 1))]"
      and e' = "channel_entry ''ctr'' (Fin 112) (Fin 100)" and x = 17]
  have h1: "map_of (fst (compare_overall_metrics example_analyzer)) ''ctr''
     = Some (overall_entry ''ctr'' (Fin 112) (Fin 100))"
    by (simp add: ex_overall)
  have h2: "map_of (fst (compare_by_channel example_analyzer)) ''email''
     = Some [(''ctr'', channel_entry ''ctr'' (Fin 112) (Fin 100)),
             (''cpc'', channel_entry ''cpc'' (Fin 2) (Fin 1))]"
    by (simp add: ex_channel)
  have h3: "map_of [(''ctr'', channel_entry ''ctr'' (Fin 112) (Fin 100)),
              (''cpc'', channel_entry ''cpc'' (Fin 2) (Fin 1))] ''ctr''
     = Some (channel_entry ''ctr'' (Fin 112) (Fin 100))"
    by simp
  have p1: "pct_difference (overall_entry ''ctr'' (Fin 112) (Fin 100)) = Fin 12"
    by (simp add: overall_entry_def Let_def ex_pct)
  have p2: "pct_difference (channel_entry ''ctr'' (Fin 112) (Fin 100)) = Fin 12"
    by (simp add: channel_entry_def Let_def ex_pct)
  from t h1 have "tier (overall_entry ''ctr'' (Fin 112) (Fin 100))
      = overall_tier (pct_difference (overall_entry ''ctr'' (Fin 112) (Fin 100)))"
    by blast
  with p1 t have a: "tier (overall_entry ''ctr'' (Fin 112) (Fin 100)) = ''top_40''"
    by simp
  from t h2 h3 have "tier (channel_entry ''ctr'' (Fin 112) (Fin 100))
      = channel_tier (pct_difference (channel_entry ''ctr'' (Fin 112) (Fin 100)))"
    by blast
  with p2 t have b: "tier (channel_entry ''ctr'' (Fin 112) (Fin 100)) = ''top_40''"
    by simp
  from t have o: "overall_tier (Fin 17) = overall_ladder_spec 17"
    and o': "overall_tier (Fin 17) = ''top_40''"
    and k: "channel_tier (Fin 17) = channel_ladder_spec 17"
    and k': "channel_tier (Fin 17) = ''top_20''"
    by blast+
  from o o' k k' have c: "overall_ladder_spec 17 = ''top_40''" "channel_ladder_spec 17 = ''top_20''"
    by simp_all
  from h1 p1 a h2 h3 p2 b c show ?thesis by blast
qed

text \<open>
  Claim C4 as stated fails: the channel comparison of 112 against 100 has percentage
  difference 12 and its tier is not top 20.
\<close>

theorem channel_tier_counterexample:
  "map_of (fst (compare_by_channel example_analyzer)) ''email''
     = Some [(''ctr'', channel_entry ''ctr'' (Fin 112) (Fin 100)),
             (''cpc'', channel_entry ''cpc'' (Fin 2) (Fin 1))]
   \<and> pct_difference (channel_entry ''ctr'' (Fin 112) (Fin 100)) = Fin 12
   \<and> tier (channel_entry ''ctr'' (Fin 112) (Fin 100)) \<noteq> ''top_20''"
  by (simp add: ex_channel channel_entry_def Let_def ex_pct channel_tier_def fl_lt_def)

text \<open>
  The sample comparator: cpc 2 against 1 is worse, roas 5 against 4 is better.
\<close>

theorem status_and_performance_witness:
  "map_of (fst (compare_overall_metrics example_analyzer)) ''cpc''
     = Some (overall_entry ''cpc'' (Fin 2) (Fin 1))
   \<and> difference (overall_entry ''cpc'' (Fin 2) (Fin 1)) = Some (Fin 1)
   \<and> status (overall_entry ''cpc'' (Fin 2) (Fin 1)) = Some ''above''
   \<and> performance (overall_entry ''cpc'' (Fin 2) (Fin 1)) = Some ''worse''
   \<and> map_of (fst (compare_overall_metrics example_analyzer)) ''roas''
     = Some (overall_entry ''roas'' (Fin 5) (Fin 4))
   \<and> status (overall_entry ''roas'' (Fin 5) (Fin 4)) = Some ''above''
   \<and> performance (overall_entry ''roas'' (Fin 5) (Fin 4)) = Some ''better''
   \<and> map_of (fst (compare_by_channel example_analyzer)) ''email''
     = Some [(''ctr'', channel_entry ''ctr'' (Fin 112) (Fin 100)),
             (''cpc'', channel_entry ''cpc'' (Fin 2) (Fin 1))]
   \<and> map_of [(''ctr'', channel_entry ''ctr'' (Fin 112) (Fin 100)),
              (''cpc'', channel_entry ''cpc'' (Fin 2) (Fin 1))] ''cpc''
     = Some (channel_entry ''cpc'' (Fin 2) (Fin 1))
   \<and> performance (channel_entry ''cpc'' (Fin 2) (Fin 1)) = None"
proof -
  note t1 = status_and_performance [where b = example_analyzer and kpi = "''cpc''"
      and e = "overall_entry ''cpc'' (Fin 2) (Fin 1)" and channel = "''email''"
      and cc = "[(''ctr'', channel_entry ''ctr'' (Fin 112) (Fin 100)),
                 (''cpc'', channel_entry ''cpc'' (Fin 2) (Fin 1))]"
      and e' = "channel_entry ''cpc'' (Fin 2) (Fin 1)"]
  note t2 = status_and_performance [where b = example_analyzer and kpi = "''roas''"
      and e = "overall_entry ''roas'' (Fin 5) (Fin 4)"]
  have h1: "map_of (fst (compare_overall_metrics example_analyzer)) ''cpc''
     = Some (overall_entry ''cpc'' (Fin 2) (Fin 1))"
    by (simp add: ex_overall)
  have h2: "map_of (fst (compare_overall_metrics example_analyzer)) ''roas''
     = Some (overall_entry ''roas'' (Fin 5) (Fin 4))"
    by (simp add: ex_overall)
  have h3: "map_of (fst (compare_by_channel example_analyzer)) ''email''
     = Some [(''ctr'', channel_entry ''ctr'' (Fin 112) (Fin 100)),
             (''cpc'', channel_entry ''cpc'' (Fin 2) (Fin 1))]"
    by (simp add: ex_channel)
  have h4: "map_of [(''ctr'', channel_entry ''ctr'' (Fin 112) (Fin 100)),
              (''cpc'', channel_entry ''cpc'' (Fin 2) (Fin 1))] ''cpc''
     = Some (channel_entry ''cpc'' (Fin 2) (Fin 1))"
    by simp
  have v1: "client_value (overall_entry ''cpc'' (Fin 2) (Fin 1)) = Fin 2"
    "benchmark_value (overall_entry ''cpc'' (Fin 2) (Fin 1)) = Fin 1"
    by (simp_all add: overall_entry_def Let_def)
  have v2: "client_value (overall_entry ''roas'' (Fin 5) (Fin 4)) = Fin 5"
    "benchmark_value (overall_entry ''roas'' (Fin 5) (Fin 4)) = Fin 4"
    by (simp_all add: overall_entry_def Let_def)
  from t1 h1 have a:
    "difference (overall_entry ''cpc'' (Fin 2) (Fin 1)) = Some (Fin 1)"
    "status (overall_entry ''cpc'' (Fin 2) (Fin 1)) = Some ''above''"
    "performance (overall_entry ''cpc'' (Fin 2) (Fin 1)) = Some ''worse''"
    by (simp_all only: v1) (simp_all add: fl_sub_def)
  from t2 h2 have b:
    "status (overall_entry ''roas'' (Fin 5) (Fin 4)) = Some ''above''"
    "performance (overall_entry ''roas'' (Fin 5) (Fin 4)) = Some ''better''"
    by (simp_all only: v2) (simp_all add: fl_sub_def)
  from t1 h3 h4 have c: "performance (channel_entry ''cpc'' (Fin 2) (Fin 1)) = None"
    by blast
  from h1 a h2 b h3 h4 c show ?thesis by blast
qed

text \<open>
  Claim C5 as stated fails for channel comparisons: the channel's cpc of 2 against 1 is a
  positive difference, and the entry has no performance, so not the performance worse.
\<close>

theorem channel_performance_counterexample:
  "map_of (fst (compare_by_channel example_analyzer)) ''email''
     = Some [(''ctr'', channel_entry ''ctr'' (Fin 112) (Fin 100)),
             (''cpc'', channel_entry ''cpc'' (Fin 2) (Fin 1))]
   \<and> fl_gt (fl_sub (client_value (channel_entry ''cpc'' (Fin 2) (Fin 1)))
                   (benchmark_value (channel_entry ''cpc'' (Fin 2) (Fin 1)))) (Fin 0)
   \<and> performance (channel_entry ''cpc'' (Fin 2) (Fin 1)) \<noteq> Some ''worse''"
  by (simp add: ex_channel channel_entry_def Let_def fl_sub_def)

section \<open>Ratios with a zero denominator\<close>

text \<open>
  Where the ratio is guarded by \<^verbatim>\<open>if total > 0 else 0\<close>, a zero denominator sum gives the
  ratio 0: overall, and in every per-channel and per-campaign entry.
\<close>

lemma basic_kpis_zero_denominator:
  assumes "calculate_basic_kpis frame = Some k"
  shows "(total_impressions k = Fin 0 \<longrightarrow> ctr k = Fin 0)
    \<and> (total_clicks k = Fin 0 \<longrightarrow> cpc k = Fin 0 \<and> cvr k = Fin 0)
    \<and> (total_conversions k = Fin 0 \<longrightarrow> cpa k = Fin 0)
    \<and> (total_spend k = Fin 0 \<longrightarrow> roas k = Fin 0)"
  using assms by (auto simp: calculate_basic_kpis_def Let_def split: if_splits)

lemma group_kpis_zero_denominator:
  "(g_impressions (kpis_of_group key rs) = Fin 0 \<longrightarrow> g_ctr (kpis_of_group key rs) = Fin 0)
    \<and> (g_clicks (kpis_of_group key rs) = Fin 0 \<longrightarrow>
          g_cpc (kpis_of_group key rs) = Fin 0 \<and> g_cvr (kpis_of_group key rs) = Fin 0)
    \<and> (g_conversions (kpis_of_group key rs) = Fin 0 \<longrightarrow> g_cpa (kpis_of_group key rs) = Fin 0)
    \<and> (g_spend (kpis_of_group key rs) = Fin 0 \<longrightarrow> g_roas (kpis_of_group key rs) = Fin 0)"
  by (simp add: kpis_of_group_def Let_def)

text \<open>
  In the per-date table a ratio \<open>0 / 0\<close> is NaN and is filled with 0, but a positive sum
  over a zero sum is an infinity, which \<^verbatim>\<open>fillna(0)\<close> leaves in place.
\<close>

lemma daily_zero_over_zero:
  "fillna (Fin 0) (fl_div (Fin 0) (Fin 0)) = Fin 0"
  by (simp add: fillna_def)

lemma daily_positive_over_zero:
  "0 < a \<Longrightarrow> fillna (Fin 0) (fl_div (Fin a) (Fin 0)) = PInf"
  by (simp add: fillna_def)

text \<open>
  Claim C1 at the per-date granularity. On a day with 100 impressions, a spend of 10, no
  click and no conversion, the denominators of cpc, cvr and cpa sum to 0; cvr is 0, but
  cpc and cpa are infinite, not 0. The overall KPIs of the same table are 0.
\<close>

theorem by_date_infinite_ratio:
  "map_option (map (\<lambda>k. (d_clicks k, d_conversions k, d_cpc k, d_cvr k, d_cpa k)))
      (calculate_by_date no_click_day)
     = Some [(Fin 0, Fin 0, PInf, Fin 0, PInf)]
   \<and> map_option (\<lambda>k. (total_clicks k, total_conversions k, cpc k, cvr k, cpa k))
      (calculate_basic_kpis no_click_day)
     = Some (Fin 0, Fin 0, Fin 0, Fin 0, Fin 0)"
  by (simp add: calculate_by_date_def calculate_basic_kpis_def has_columns_def no_click_day_def
      daily_row_def Let_def series_sum_def dropna_def fillna_def fl_sub_def col_def)

section \<open>Weather correlations\<close>

subsection \<open>Which pairs are computed\<close>

lemma map_of_fold_update:
  "map_of (fold (\<lambda>k acc. AList.update k (f k) acc) ks acc) k =
     (if k \<in> set ks then Some (f k) else map_of acc k)"
  by (induction ks arbitrary: acc) (simp_all add: AList.update_conv')

lemma map_of_fold_weather_step:
  "map_of (fold (weather_step pearsonr t perf_col) wcs acc) wc =
     (if wc \<in> set wcs \<and> 2 < length (valid_data t perf_col wc)
      then Some (corr_entry pearsonr t perf_col wc) else map_of acc wc)"
  by (induction wcs arbitrary: acc) (auto simp: weather_step_def AList.update_conv')

lemma lookup2_calculate:
  "lookup2 (fst (calculate_correlations pearsonr w)) perf_col weather_col =
     (if check_weather_data_available w \<and> perf_col \<in> set performance_cols
         \<and> perf_col \<in> set (columns (weather_df w)) \<and> weather_col \<in> set weather_cols
         \<and> 3 \<le> length (valid_data (weather_df w) perf_col weather_col)
      then Some (corr_entry pearsonr (weather_df w) perf_col weather_col) else None)"
proof (cases "check_weather_data_available w")
  case False
  then show ?thesis by (simp add: calculate_correlations_def lookup2_def)
next
  case True
  have "3 \<le> length (valid_data (weather_df w) perf_col weather_col)
      \<longleftrightarrow> 2 < length (valid_data (weather_df w) perf_col weather_col)"
    by auto
  with True show ?thesis
    by (simp add: calculate_correlations_def lookup2_def Let_def map_of_fold_update
        map_of_fold_weather_step)
qed

lemma calculate_stores:
  "correlations (snd (calculate_correlations pearsonr w)) =
     (if check_weather_data_available w then fst (calculate_correlations pearsonr w)
      else correlations w)"
  by (simp add: calculate_correlations_def Let_def)

text \<open>
  Claim C7. A pair of a performance column and a weather column has an entry in the
  result exactly when weather data is available, the performance column is one of the
  five and is in the table, and at least 3 rows have both values present; the entry is
  then the one computed from these rows. With fewer than 3 such rows the pair has no entry
  at all.
\<close>

theorem correlation_needs_three_pairs:
  "lookup2 (fst (calculate_correlations pearsonr w)) perf_col weather_col =
     (if check_weather_data_available w \<and> perf_col \<in> set performance_cols
         \<and> perf_col \<in> set (columns (weather_df w)) \<and> weather_col \<in> set weather_cols
         \<and> 3 \<le> length (filter (\<lambda>r. num r perf_col \<noteq> NaN \<and> num r weather_col \<noteq> NaN)
                          (rows (weather_df w)))
      then Some (corr_entry pearsonr (weather_df w) perf_col weather_col) else None)
   \<and> (check_weather_data_available w \<longrightarrow>
        correlations (snd (calculate_correlations pearsonr w)) =
          fst (calculate_correlations pearsonr w))"
  using lookup2_calculate [of pearsonr w perf_col weather_col] calculate_stores [of pearsonr w]
  by (simp add: valid_data_def)

subsection \<open>The sample\<close>

lemma sample_available: "check_weather_data_available (new_weather_analyzer weather_sample)"
  by (simp add: check_weather_data_available_def new_weather_analyzer_def weather_sample_def
      weather_cols_def)

lemma sample_df: "weather_df (new_weather_analyzer weather_sample) = weather_sample"
  by (simp add: new_weather_analyzer_def)

lemma sample_valid_conversions:
  "wc \<in> set weather_cols \<Longrightarrow> valid_data weather_sample ''conversions'' wc = rows weather_sample"
  by (auto simp: valid_data_def weather_sample_def weather_row_def weather_cols_def)

lemma sample_valid_revenue:
  "wc \<in> set weather_cols \<Longrightarrow>
   valid_data weather_sample ''revenue'' wc =
     [weather_row 0 12 0 10 (Fin 100), weather_row 2 22 5 30 (Fin 300)]"
  by (auto simp: valid_data_def weather_sample_def weather_row_def weather_cols_def)

lemma sample_entry_temperature:
  "corr_entry sample_pearson weather_sample ''conversions'' ''temperature_c'' =
     \<lparr>correlation = Fin 0.9, p_value = Fin 0.2, significant = False\<rparr>"
  by (simp add: corr_entry_def sample_valid_conversions weather_cols_def)
    (simp add: weather_sample_def weather_row_def sample_pearson_def fl_lt_def)

lemma sample_entry_rainfall:
  "corr_entry sample_pearson weather_sample ''conversions'' ''rainfall_mm'' =
     \<lparr>correlation = Fin 0.65, p_value = Fin 0.01, significant = True\<rparr>"
  by (simp add: corr_entry_def sample_valid_conversions weather_cols_def)
    (simp add: weather_sample_def weather_row_def sample_pearson_def fl_lt_def)

lemma sample_columns:
  "''conversions'' \<in> set performance_cols" "''revenue'' \<in> set performance_cols"
  "''conversions'' \<in> set (columns weather_sample)" "''revenue'' \<in> set (columns weather_sample)"
  "''temperature_c'' \<in> set weather_cols" "''rainfall_mm'' \<in> set weather_cols"
  by (simp_all add: performance_cols_def weather_sample_def weather_cols_def)

text \<open>
  In the sample the pair of conversions and temperature has three rows and is computed;
  revenue is missing in one row, so its pair with temperature has two and is left out.
\<close>

theorem correlation_needs_three_pairs_witness:
  "check_weather_data_available (new_weather_analyzer weather_sample)
   \<and> length (filter (\<lambda>r. num r ''conversions'' \<noteq> NaN \<and> num r ''temperature_c'' \<noteq> NaN)
               (rows weather_sample)) = 3
   \<and> lookup2 (fst (calculate_correlations sample_pearson (new_weather_analyzer weather_sample)))
        ''conversions'' ''temperature_c''
      = Some \<lparr>correlation = Fin 0.9, p_value = Fin 0.2, significant = False\<rparr>
   \<and> length (filter (\<lambda>r. num r ''revenue'' \<noteq> NaN \<and> num r ''temperature_c'' \<noteq> NaN)
               (rows weather_sample)) = 2
   \<and> lookup2 (fst (calculate_correlations sample_pearson (new_weather_analyzer weather_sample)))
        ''revenue'' ''temperature_c'' = None
   \<and> correlations (snd (calculate_correlations sample_pearson (new_weather_analyzer weather_sample)))
      = fst (calculate_correlations sample_pearson (new_weather_analyzer weather_sample))"
proof -
  note t1 = correlation_needs_three_pairs [where pearsonr = sample_pearson
      and w = "new_weather_analyzer weather_sample" and perf_col = "''conversions''"
      and weather_col = "''temperature_c''"]
  note t2 = correlation_needs_three_pairs [where pearsonr = sample_pearson
      and w = "new_weather_analyzer weather_sample" and perf_col = "''revenue''"
      and weather_col = "''temperature_c''"]
  have n3: "length (filter (\<lambda>r. num r ''conversions'' \<noteq> NaN \<and> num r ''temperature_c'' \<noteq> NaN)
               (rows weather_sample)) = 3"
    using sample_valid_conversions [of "''temperature_c''"]
    by (simp add: valid_data_def sample_columns) (simp add: weather_sample_def)
  have n2: "length (filter (\<lambda>r. num r ''revenue'' \<noteq> NaN \<and> num r ''temperature_c'' \<noteq> NaN)
               (rows weather_sample)) = 2"
    using sample_valid_revenue [of "''temperature_c''"]
    by (simp add: valid_data_def sample_columns)
  from t1 have "lookup2 (fst (calculate_correlations sample_pearson (new_weather_analyzer weather_sample)))
        ''conversions'' ''temperature_c''
      = Some (corr_entry sample_pearson weather_sample ''conversions'' ''temperature_c'')"
    by (simp add: sample_available sample_df sample_columns n3)
  then have a: "lookup2 (fst (calculate_correlations sample_pearson (new_weather_analyzer weather_sample)))
        ''conversions'' ''temperature_c''
      = Some \<lparr>correlation = Fin 0.9, p_value = Fin 0.2, significant = False\<rparr>"
    by (simp only: sample_entry_temperature)
  from t2 have b: "lookup2 (fst (calculate_correlations sample_pearson (new_weather_analyzer weather_sample)))
        ''revenue'' ''temperature_c'' = None"
    by (simp add: sample_available sample_df sample_columns n2)
  from t1 sample_available have c:
    "correlations (snd (calculate_correlations sample_pearson (new_weather_analyzer weather_sample)))
      = fst (calculate_correlations sample_pearson (new_weather_analyzer weather_sample))"
    by blast
  from sample_available n3 a n2 b c show ?thesis by blast
qed

subsection \<open>Strong correlations\<close>

lemma lookup2_strong_step:
  "lookup2 (strong_step threshold m (wt, d) strong) m' wt' =
     (if fl_ge (fl_abs (correlation d)) threshold \<and> significant d \<and> m' = m \<and> wt' = wt
      then Some d else lookup2 strong m' wt')"
  by (auto simp: strong_step_def lookup2_def Let_def AList.update_conv' split: option.splits)

lemma lookup2_fold_strong_step:
  assumes "distinct (map fst wc)"
  shows "lookup2 (fold (strong_step threshold m) wc strong) m' wt =
     (if m' = m
      then (case map_of wc wt of
              Some d \<Rightarrow> if fl_ge (fl_abs (correlation d)) threshold \<and> significant d
                        then Some d else lookup2 strong m wt
            | None \<Rightarrow> lookup2 strong m wt)
      else lookup2 strong m' wt)"
  using assms
proof (induction wc arbitrary: strong)
  case Nil
  then show ?case by simp
next
  case (Cons p wc)
  obtain k d where p: "p = (k, d)" by (cases p)
  from Cons.prems p have k: "k \<notin> fst ` set wc" and dist: "distinct (map fst wc)" by auto
  from k have none: "map_of wc k = None" by (simp add: map_of_eq_None_iff)
  show ?case
    using Cons.IH [OF dist, of "strong_step threshold m (k, d) strong"] none
    by (auto simp: p lookup2_strong_step split: option.splits)
qed

lemma lookup2_fold_strong:
  assumes "distinct (map fst cs)" and "\<forall>p\<in>set cs. distinct (map fst (snd p))"
  shows "lookup2 (fold (\<lambda>(m, wc) strong. fold (strong_step threshold m) wc strong) cs strong) m' wt =
     (case lookup2 cs m' wt of
        Some d \<Rightarrow> if fl_ge (fl_abs (correlation d)) threshold \<and> significant d
                  then Some d else lookup2 strong m' wt
      | None \<Rightarrow> lookup2 strong m' wt)"
  using assms
proof (induction cs arbitrary: strong)
  case Nil
  then show ?case by (simp add: lookup2_def)
next
  case (Cons p cs)
  obtain m wc where p: "p = (m, wc)" by (cases p)
  from Cons.prems p have m: "m \<notin> fst ` set cs" and dist: "distinct (map fst cs)"
    and inner: "distinct (map fst wc)" and rest: "\<forall>p\<in>set cs. distinct (map fst (snd p))"
    by auto
  from m have none: "map_of cs m = None" by (simp add: map_of_eq_None_iff)
  have ih: "lookup2 (fold (\<lambda>(m, wc) strong. fold (strong_step threshold m) wc strong) cs
        (fold (strong_step threshold m) wc strong)) m' wt =
     (case lookup2 cs m' wt of
        Some d \<Rightarrow> if fl_ge (fl_abs (correlation d)) threshold \<and> significant d
                  then Some d else lookup2 (fold (strong_step threshold m) wc strong) m' wt
      | None \<Rightarrow> lookup2 (fold (strong_step threshold m) wc strong) m' wt)"
    by (rule Cons.IH [OF dist rest])
  have step: "fold (\<lambda>(m, wc) strong. fold (strong_step threshold m) wc strong) (p # cs) strong =
      fold (\<lambda>(m, wc) strong. fold (strong_step threshold m) wc strong) cs
        (fold (strong_step threshold m) wc strong)"
    by (simp add: p)
  show ?case
  proof (cases "m' = m")
    case True
    with none have n: "lookup2 cs m' wt = None" by (simp add: lookup2_def)
    have h: "lookup2 (p # cs) m' wt = map_of wc wt"
      using True by (simp add: p lookup2_def)
    have "lookup2 (fold (\<lambda>(m, wc) strong. fold (strong_step threshold m) wc strong) (p # cs) strong) m' wt
        = lookup2 (fold (strong_step threshold m) wc strong) m' wt"
      unfolding step ih n by simp
    also have "\<dots> = (case map_of wc wt of
              Some d \<Rightarrow> if fl_ge (fl_abs (correlation d)) threshold \<and> significant d
                        then Some d else lookup2 strong m' wt
            | None \<Rightarrow> lookup2 strong m' wt)"
      unfolding lookup2_fold_strong_step [OF inner] using True by (auto split: option.splits)
    finally show ?thesis unfolding h .
  next
    case False
    then have h: "lookup2 (p # cs) m' wt = lookup2 cs m' wt" by (simp add: p lookup2_def)
    have o: "lookup2 (fold (strong_step threshold m) wc strong) m' wt = lookup2 strong m' wt"
      unfolding lookup2_fold_strong_step [OF inner] using False by simp
    show ?thesis unfolding step ih o h ..
  qed
qed

lemma distinct_fold_update:
  "distinct (map fst acc) \<Longrightarrow> distinct (map fst (fold (\<lambda>k acc. AList.update k (f k) acc) ks acc))"
  by (induction ks arbitrary: acc) (simp_all add: AList.distinct_update)

lemma distinct_fold_weather_step:
  "distinct (map fst acc) \<Longrightarrow> distinct (map fst (fold (weather_step pearsonr t perf_col) wcs acc))"
  by (induction wcs arbitrary: acc) (simp_all add: weather_step_def AList.distinct_update)

lemma set_fold_update:
  "set (fold (\<lambda>k acc. AList.update k (f k) acc) ks acc) \<subseteq> set acc \<union> {(k, f k) | k. k \<in> set ks}"
proof (induction ks arbitrary: acc)
  case Nil
  then show ?case by simp
next
  case (Cons k ks)
  have "set (fold (\<lambda>k acc. AList.update k (f k) acc) ks (AList.update k (f k) acc))
      \<subseteq> set (AList.update k (f k) acc) \<union> {(k, f k) | k. k \<in> set ks}"
    by (rule Cons.IH)
  with set_update_subset [of k "f k" acc] show ?case by auto
qed

lemma calculated_distinct:
  "distinct (map fst (fst (calculate_correlations pearsonr w)))"
  "\<forall>p\<in>set (fst (calculate_correlations pearsonr w)). distinct (map fst (snd p))"
proof -
  show "distinct (map fst (fst (calculate_correlations pearsonr w)))"
    by (simp add: calculate_correlations_def Let_def distinct_fold_update)
  show "\<forall>p\<in>set (fst (calculate_correlations pearsonr w)). distinct (map fst (snd p))"
  proof (cases "check_weather_data_available w")
    case False
    then show ?thesis by (simp add: calculate_correlations_def)
  next
    case True
    show ?thesis
    proof
      fix p assume "p \<in> set (fst (calculate_correlations pearsonr w))"
      with True have "p \<in> set (fold (\<lambda>perf_col acc.
                       AList.update perf_col
                         (fold (weather_step pearsonr (weather_df w) perf_col) weather_cols [])
                         acc)
                    (filter (\<lambda>c. c \<in> set (columns (weather_df w))) performance_cols) [])"
        by (simp add: calculate_correlations_def Let_def)
      then obtain k where "p = (k, fold (weather_step pearsonr (weather_df w) k) weather_cols [])"
        using set_fold_update [of "\<lambda>k. fold (weather_step pearsonr (weather_df w) k) weather_cols []"
            "filter (\<lambda>c. c \<in> set (columns (weather_df w))) performance_cols" "[]"]
        by auto
      then show "distinct (map fst (snd p))"
        by (simp add: distinct_fold_weather_step)
    qed
  qed
qed

lemma corr_entry_significant:
  "significant (corr_entry pearsonr t perf_col wc) =
     fl_lt (p_value (corr_entry pearsonr t perf_col wc)) (Fin 0.05)"
  by (simp add: corr_entry_def Let_def split: prod.splits)

lemma calculated_significant:
  assumes "lookup2 (fst (calculate_correlations pearsonr w)) m wt = Some d"
  shows "significant d = fl_lt (p_value d) (Fin 0.05)"
proof -
  from assms have "d = corr_entry pearsonr (weather_df w) m wt"
    unfolding lookup2_calculate by (simp split: if_splits)
  then show ?thesis by (simp only: corr_entry_significant)
qed

text \<open>
  Claim C6. After the correlations have been calculated, a pair is among the strong
  correlations exactly when it has a computed entry whose coefficient is at least the
  threshold in absolute value (0.6 by default) and whose p-value is below 0.05; the strong
  entry is the computed one.
\<close>

theorem strong_iff_magnitude_and_significance:
  "lookup2 (get_strong_correlations
              (snd (calculate_correlations pearsonr (new_weather_analyzer t))) threshold)
      metric weather_type =
     (case lookup2 (correlations (snd (calculate_correlations pearsonr (new_weather_analyzer t))))
             metric weather_type of
        None \<Rightarrow> None
      | Some data \<Rightarrow>
          if fl_ge (fl_abs (correlation data)) threshold \<and> fl_lt (p_value data) (Fin 0.05)
          then Some data else None)"
proof (cases "check_weather_data_available (new_weather_analyzer t)")
  case False
  then have "correlations (snd (calculate_correlations pearsonr (new_weather_analyzer t))) = []"
    by (simp add: calculate_correlations_def new_weather_analyzer_def)
  then show ?thesis by (simp add: get_strong_correlations_def lookup2_def)
next
  case True
  let ?w = "new_weather_analyzer t"
  let ?cs = "fst (calculate_correlations pearsonr ?w)"
  from True have st: "correlations (snd (calculate_correlations pearsonr ?w)) = ?cs"
    by (simp add: calculate_stores)
  have "lookup2 (fold (\<lambda>(m, wc) strong. fold (strong_step threshold m) wc strong) ?cs [])
      metric weather_type =
     (case lookup2 ?cs metric weather_type of
        Some d \<Rightarrow> if fl_ge (fl_abs (correlation d)) threshold \<and> significant d
                  then Some d else lookup2 [] metric weather_type
      | None \<Rightarrow> lookup2 [] metric weather_type)"
    by (rule lookup2_fold_strong [OF calculated_distinct])
  also have "\<dots> = (case lookup2 ?cs metric weather_type of
        None \<Rightarrow> None
      | Some data \<Rightarrow>
          if fl_ge (fl_abs (correlation data)) threshold \<and> fl_lt (p_value data) (Fin 0.05)
          then Some data else None)"
  proof (cases "lookup2 ?cs metric weather_type")
    case None
    then show ?thesis by (simp add: lookup2_def)
  next
    case (Some d)
    with calculated_significant [OF Some] show ?thesis by (simp add: lookup2_def)
  qed
  finally show ?thesis by (simp add: get_strong_correlations_def st)
qed

text \<open>
  The examples of the claim: a coefficient of 0.9 with p-value 0.2 is not strong, a
  coefficient of 0.65 with p-value 0.01 is.
\<close>

theorem strong_iff_magnitude_and_significance_witness:
  "lookup2 (correlations (snd (calculate_correlations sample_pearson
                                 (new_weather_analyzer weather_sample))))
       ''conversions'' ''temperature_c''
     = Some \<lparr>correlation = Fin 0.9, p_value = Fin 0.2, significant = False\<rparr>
   \<and> lookup2 (get_strong_correlations
                (snd (calculate_correlations sample_pearson (new_weather_analyzer weather_sample)))
                (Fin 0.6))
       ''conversions'' ''temperature_c'' = None
   \<and> lookup2 (correlations (snd (calculate_correlations sample_pearson
                                 (new_weather_analyzer weather_sample))))
       ''conversions'' ''rainfall_mm''
     = Some \<lparr>correlation = Fin 0.65, p_value = Fin 0.01, significant = True\<rparr>
   \<and> lookup2 (get_strong_correlations
                (snd (calculate_correlations sample_pearson (new_weather_analyzer weather_sample)))
                (Fin 0.6))
       ''conversions'' ''rainfall_mm''
     = Some \<lparr>correlation = Fin 0.65, p_value = Fin 0.01, significant = True\<rparr>"
proof -
  let ?w = "snd (calculate_correlations sample_pearson (new_weather_analyzer weather_sample))"
  note t1 = strong_iff_magnitude_and_significance [where pearsonr = sample_pearson
      and t = weather_sample and threshold = "Fin 0.6" and metric = "''conversions''"
      and weather_type = "''temperature_c''"]
  note t2 = strong_iff_magnitude_and_significance [where pearsonr = sample_pearson
      and t = weather_sample and threshold = "Fin 0.6" and metric = "''conversions''"
      and weather_type = "''rainfall_mm''"]
  have st: "correlations ?w = fst (calculate_correlations sample_pearson (new_weather_analyzer weather_sample))"
    by (simp add: calculate_stores sample_available)
  have n3: "3 \<le> length (valid_data weather_sample ''conversions'' wc)" if "wc \<in> set weather_cols" for wc
    by (simp add: sample_valid_conversions [OF that]) (simp add: weather_sample_def)
  have a: "lookup2 (correlations ?w) ''conversions'' ''temperature_c''
     = Some \<lparr>correlation = Fin 0.9, p_value = Fin 0.2, significant = False\<rparr>"
    unfolding st lookup2_calculate
    by (simp add: sample_available sample_df sample_columns n3 sample_entry_temperature)
  have b: "lookup2 (correlations ?w) ''conversions'' ''rainfall_mm''
     = Some \<lparr>correlation = Fin 0.65, p_value = Fin 0.01, significant = True\<rparr>"
    unfolding st lookup2_calculate
    by (simp add: sample_available sample_df sample_columns n3 sample_entry_rainfall)
  from t1 have c: "lookup2 (get_strong_correlations ?w (Fin 0.6)) ''conversions'' ''temperature_c'' = None"
    unfolding a by (simp add: fl_lt_def)
  from t2 have d: "lookup2 (get_strong_correlations ?w (Fin 0.6)) ''conversions'' ''rainfall_mm''
     = Some \<lparr>correlation = Fin 0.65, p_value = Fin 0.01, significant = True\<rparr>"
    unfolding b by (simp add: fl_lt_def fl_ge_def)
  from a c b d show ?thesis by blast
qed

section \<open>Temperature bands\<close>

lemma band_in_range:
  assumes "0 \<le> lo" and "hi \<le> 50"
    and "fl_ge x (Fin lo) \<and> fl_lt x (Fin hi)"
  shows "\<not> (fl_lt x (Fin 0) \<or> fl_ge x (Fin 50))"
  using assms by (cases x) (auto simp: fl_ge_def fl_lt_def)

lemma filter_filter_imp: "(\<And>x. P x \<Longrightarrow> K x) \<Longrightarrow> filter P (filter K xs) = filter P xs"
  by (induction xs) auto

lemma temp_data_same:
  assumes "filter (\<lambda>r. \<not> (fl_lt (num r ''temperature_c'') (Fin 0)
                           \<or> fl_ge (num r ''temperature_c'') (Fin 50))) (rows t')
         = filter (\<lambda>r. \<not> (fl_lt (num r ''temperature_c'') (Fin 0)
                           \<or> fl_ge (num r ''temperature_c'') (Fin 50))) (rows t)"
    and "0 \<le> lo" and "hi \<le> 50"
  shows "temp_data t' lo hi = temp_data t lo hi"
proof -
  let ?keep = "\<lambda>r. \<not> (fl_lt (num r ''temperature_c'') (Fin 0)
                      \<or> fl_ge (num r ''temperature_c'') (Fin 50))"
  let ?band = "\<lambda>r. fl_ge (num r ''temperature_c'') (Fin lo) \<and> fl_lt (num r ''temperature_c'') (Fin hi)"
  have k: "filter ?band (filter ?keep xs) = filter ?band xs" for xs
    by (rule filter_filter_imp) (rule band_in_range [OF assms(2,3)])
  have "temp_data t' lo hi = filter ?band (rows t')" by (simp add: temp_data_def)
  also have "\<dots> = filter ?band (filter ?keep (rows t'))" by (simp only: k)
  also have "\<dots> = filter ?band (filter ?keep (rows t))" by (simp only: assms(1))
  also have "\<dots> = filter ?band (rows t)" by (simp only: k)
  also have "\<dots> = temp_data t lo hi" by (simp add: temp_data_def)
  finally show ?thesis .
qed

lemma analyze_same:
  assumes "columns (weather_df w') = columns (weather_df w)"
    and "filter (\<lambda>r. \<not> (fl_lt (num r ''temperature_c'') (Fin 0)
                           \<or> fl_ge (num r ''temperature_c'') (Fin 50))) (rows (weather_df w'))
         = filter (\<lambda>r. \<not> (fl_lt (num r ''temperature_c'') (Fin 0)
                           \<or> fl_ge (num r ''temperature_c'') (Fin 50))) (rows (weather_df w))"
  shows "analyze_temperature_ranges w' = analyze_temperature_ranges w"
proof -
  have "temp_data (weather_df w') lo hi = temp_data (weather_df w) lo hi"
    if "0 \<le> lo" "hi \<le> 50" for lo hi
    by (rule temp_data_same [OF assms(2) that])
  then show ?thesis
    by (simp add: analyze_temperature_ranges_def temp_ranges_def assms(1) Let_def)
qed

lemma out_of_range_in_no_band:
  assumes "fl_lt (num r ''temperature_c'') (Fin 0) \<or> fl_ge (num r ''temperature_c'') (Fin 50)"
  shows "list_all (\<lambda>(temp_name, min_t, max_t). r \<notin> set (temp_data t min_t max_t)) temp_ranges"
proof -
  have "r \<notin> set (temp_data t lo hi)" if "0 \<le> lo" "hi \<le> 50" for lo hi
    using band_in_range [OF that, of "num r ''temperature_c''"] assms
    by (auto simp: temp_data_def)
  then show ?thesis by (simp add: temp_ranges_def)
qed

lemma filter_temp_insights:
  "filter (\<lambda>i. wi_type i = ''temperature_range'') (fst (generate_weather_insights w)) =
     temperature_insights w"
proof -
  have c: "filter (\<lambda>i. wi_type i = ''temperature_range'') (correlation_insights w) = []"
    by (auto simp: correlation_insights_def filter_empty_conv)
  have r: "filter (\<lambda>i. wi_type i = ''temperature_range'') (rainy_insights w) = []"
    by (auto simp: rainy_insights_def filter_empty_conv split: option.splits)
  have t: "filter (\<lambda>i. wi_type i = ''temperature_range'') (temperature_insights w) =
      temperature_insights w"
    by (simp add: temperature_insights_def Let_def split: list.splits)
  show ?thesis by (simp add: generate_weather_insights_def Let_def c r t)
qed

lemma filter_temp_recs:
  "filter (\<lambda>r. wr_type r = ''optimize_for_best_temperature'') (fst (generate_recommendations w)) =
     temperature_recs w"
proof -
  have c: "filter (\<lambda>r. wr_type r = ''optimize_for_best_temperature'') (correlation_recs w) = []"
    by (auto simp: correlation_recs_def filter_empty_conv split: if_splits)
  have r: "filter (\<lambda>r. wr_type r = ''optimize_for_best_temperature'') (rainy_recs w) = []"
    by (auto simp: rainy_recs_def Let_def filter_empty_conv split: option.splits)
  have t: "filter (\<lambda>r. wr_type r = ''optimize_for_best_temperature'') (temperature_recs w) =
      temperature_recs w"
    by (simp add: temperature_recs_def split: list.splits)
  show ?thesis by (simp add: generate_recommendations_def Let_def c r t)
qed

text \<open>
  Claim C10. A row whose temperature is below 0, or is 50 or more, is in the rows of none
  of the five bands. Hence two tables with the same columns that differ only in such rows
  have the same temperature breakdown (the same bands, with the same count, average,
  total, maximum and minimum of every metric), the same best and worst band insight and
  the same temperature recommendation.
\<close>

theorem out_of_band_rows_ignored:
  "(fl_lt (num r ''temperature_c'') (Fin 0) \<or> fl_ge (num r ''temperature_c'') (Fin 50) \<longrightarrow>
      list_all (\<lambda>(temp_name, min_t, max_t). r \<notin> set (temp_data t min_t max_t)) temp_ranges)
   \<and> (columns (weather_df w') = columns (weather_df w)
      \<and> filter (\<lambda>r. \<not> (fl_lt (num r ''temperature_c'') (Fin 0)
                         \<or> fl_ge (num r ''temperature_c'') (Fin 50))) (rows (weather_df w'))
        = filter (\<lambda>r. \<not> (fl_lt (num r ''temperature_c'') (Fin 0)
                         \<or> fl_ge (num r ''temperature_c'') (Fin 50))) (rows (weather_df w)) \<longrightarrow>
        analyze_temperature_ranges w' = analyze_temperature_ranges w
        \<and> filter (\<lambda>i. wi_type i = ''temperature_range'') (fst (generate_weather_insights w'))
          = filter (\<lambda>i. wi_type i = ''temperature_range'') (fst (generate_weather_insights w))
        \<and> filter (\<lambda>r. wr_type r = ''optimize_for_best_temperature'')
            (fst (generate_recommendations w'))
          = filter (\<lambda>r. wr_type r = ''optimize_for_best_temperature'')
              (fst (generate_recommendations w)))"
proof -
  have a: "analyze_temperature_ranges w' = analyze_temperature_ranges w
        \<and> filter (\<lambda>i. wi_type i = ''temperature_range'') (fst (generate_weather_insights w'))
          = filter (\<lambda>i. wi_type i = ''temperature_range'') (fst (generate_weather_insights w))
        \<and> filter (\<lambda>r. wr_type r = ''optimize_for_best_temperature'')
            (fst (generate_recommendations w'))
          = filter (\<lambda>r. wr_type r = ''optimize_for_best_temperature'')
              (fst (generate_recommendations w))"
    if h: "columns (weather_df w') = columns (weather_df w)
      \<and> filter (\<lambda>r. \<not> (fl_lt (num r ''temperature_c'') (Fin 0)
                         \<or> fl_ge (num r ''temperature_c'') (Fin 50))) (rows (weather_df w'))
        = filter (\<lambda>r. \<not> (fl_lt (num r ''temperature_c'') (Fin 0)
                         \<or> fl_ge (num r ''temperature_c'') (Fin 50))) (rows (weather_df w))"
  proof -
    from h have e: "analyze_temperature_ranges w' = analyze_temperature_ranges w"
      by (intro analyze_same) simp_all
    then have "temperature_insights w' = temperature_insights w"
      and "temperature_recs w' = temperature_recs w"
      by (simp_all add: temperature_insights_def temperature_recs_def)
    with e show ?thesis by (simp only: filter_temp_insights filter_temp_recs)
  qed
  from out_of_range_in_no_band [of r t] a show ?thesis by blast
qed

lemma band_sample_df:
  "columns (weather_df (band_sample rs)) = [''date'', ''conversions'', ''temperature_c'']"
  "rows (weather_df (band_sample rs)) = rs"
  by (simp_all add: band_sample_def new_weather_analyzer_def)

lemma band_sample_analysis:
  "map (\<lambda>(name, a). (name, ra_count a, map (\<lambda>(m, s). (m, ms_avg s, ms_max s)) (ra_metrics a)))
       (analyze_temperature_ranges (band_sample [band_row 5 10, band_row 22 30]))
     = [(''cold'', 1, [(''conversions'', Fin 10, Fin 10)]),
        (''warm'', 1, [(''conversions'', Fin 30, Fin 30)])]"
  by (simp add: analyze_temperature_ranges_def band_sample_df temp_ranges_def temp_data_def
      band_row_def metrics_to_analyze_def range_entry_def Let_def fl_ge_def fl_lt_def
      series_mean_def series_sum_def series_max_def dropna_def)

text \<open>
  The rows at -5 and at 60 degrees, with 1000 and 2000 conversions, change nothing: the
  bands are cold and warm, with averages 10 and 30.
\<close>

theorem out_of_band_rows_ignored_witness:
  "(fl_lt (num (band_row (- 5) 1000) ''temperature_c'') (Fin 0)
     \<or> fl_ge (num (band_row (- 5) 1000) ''temperature_c'') (Fin 50))
   \<and> list_all (\<lambda>(temp_name, min_t, max_t).
        band_row (- 5) 1000 \<notin> set (temp_data (weather_df (band_sample
          [band_row 5 10, band_row (- 5) 1000, band_row 22 30, band_row 60 2000])) min_t max_t))
        temp_ranges
   \<and> analyze_temperature_ranges
        (band_sample [band_row 5 10, band_row (- 5) 1000, band_row 22 30, band_row 60 2000])
      = analyze_temperature_ranges (band_sample [band_row 5 10, band_row 22 30])
   \<and> map (\<lambda>(name, a). (name, ra_count a, map (\<lambda>(m, s). (m, ms_avg s, ms_max s)) (ra_metrics a)))
       (analyze_temperature_ranges
          (band_sample [band_row 5 10, band_row (- 5) 1000, band_row 22 30, band_row 60 2000]))
      = [(''cold'', 1, [(''conversions'', Fin 10, Fin 10)]),
         (''warm'', 1, [(''conversions'', Fin 30, Fin 30)])]
   \<and> filter (\<lambda>i. wi_type i = ''temperature_range'')
        (fst (generate_weather_insights
           (band_sample [band_row 5 10, band_row (- 5) 1000, band_row 22 30, band_row 60 2000])))
      = filter (\<lambda>i. wi_type i = ''temperature_range'')
          (fst (generate_weather_insights (band_sample [band_row 5 10, band_row 22 30])))
   \<and> filter (\<lambda>r. wr_type r = ''optimize_for_best_temperature'')
        (fst (generate_recommendations
           (band_sample [band_row 5 10, band_row (- 5) 1000, band_row 22 30, band_row 60 2000])))
      = filter (\<lambda>r. wr_type r = ''optimize_for_best_temperature'')
          (fst (generate_recommendations (band_sample [band_row 5 10, band_row 22 30])))"
proof -
  let ?big = "band_sample [band_row 5 10, band_row (- 5) 1000, band_row 22 30, band_row 60 2000]"
  let ?small = "band_sample [band_row 5 10, band_row 22 30]"
  note t = out_of_band_rows_ignored [where r = "band_row (- 5) 1000" and t = "weather_df ?big"
      and w' = ?big and w = ?small]
  have h1: "fl_lt (num (band_row (- 5) 1000) ''temperature_c'') (Fin 0)
     \<or> fl_ge (num (band_row (- 5) 1000) ''temperature_c'') (Fin 50)"
    by (simp add: band_row_def fl_lt_def)
  have h2: "columns (weather_df ?big) = columns (weather_df ?small)
      \<and> filter (\<lambda>r. \<not> (fl_lt (num r ''temperature_c'') (Fin 0)
                         \<or> fl_ge (num r ''temperature_c'') (Fin 50))) (rows (weather_df ?big))
        = filter (\<lambda>r. \<not> (fl_lt (num r ''temperature_c'') (Fin 0)
                         \<or> fl_ge (num r ''temperature_c'') (Fin 50))) (rows (weather_df ?small))"
    by (simp add: band_sample_df band_row_def fl_lt_def fl_ge_def)
  from t h1 have a: "list_all (\<lambda>(temp_name, min_t, max_t).
        band_row (- 5) 1000 \<notin> set (temp_data (weather_df ?big) min_t max_t)) temp_ranges"
    by blast
  from t h2 have b: "analyze_temperature_ranges ?big = analyze_temperature_ranges ?small"
    by blast
  from t h2 have c: "filter (\<lambda>i. wi_type i = ''temperature_range'')
        (fst (generate_weather_insights ?big))
      = filter (\<lambda>i. wi_type i = ''temperature_range'') (fst (generate_weather_insights ?small))"
    by blast
  from t h2 have d: "filter (\<lambda>r. wr_type r = ''optimize_for_best_temperature'')
        (fst (generate_recommendations ?big))
      = filter (\<lambda>r. wr_type r = ''optimize_for_best_temperature'')
          (fst (generate_recommendations ?small))"
    by blast
  have e: "map (\<lambda>(name, a). (name, ra_count a, map (\<lambda>(m, s). (m, ms_avg s, ms_max s)) (ra_metrics a)))
       (analyze_temperature_ranges ?big)
      = [(''cold'', 1, [(''conversions'', Fin 10, Fin 10)]),
         (''warm'', 1, [(''conversions'', Fin 30, Fin 30)])]"
    unfolding b by (rule band_sample_analysis)
  from h1 a b e c d show ?thesis by blast
qed

end
